theory Spec2Isabelle
  imports Complex_Main "HOL-Library.Multiset" "HOL-Library.Sublist"
begin

section \<open>JavaScript strings and arrays\<close>

text \<open>
  The plugin is TypeScript. Its strings are modelled as \<^typ>\<open>string\<close>, one
  \<^typ>\<open>char\<close> per code unit (the code units below 256), its arrays as lists, and its
  numbers as exact values: the rounding of a double is not modelled, so a number of the
  model is the number of the program wherever JavaScript represents it exactly (for an
  integer, up to \<open>2^53\<close>). An index that the source computes as \<open>-1\<close> is an
  \<^typ>\<open>int\<close>, because the source goes on computing with it.
\<close>

definition isSpace :: "char \<Rightarrow> bool" where
  \<comment> \<open>the class \<open>\s\<close>: TAB, LF, VT, FF, CR, SPACE, NBSP\<close>
  "isSpace c = (c \<in> set [CHR 0x09, CHR 0x0A, CHR 0x0B, CHR 0x0C, CHR 0x0D, CHR 0x20, CHR 0xA0])"

definition isLineTerminator :: "char \<Rightarrow> bool" where
  \<comment> \<open>the characters that \<open>.\<close> does not match\<close>
  "isLineTerminator c = (c = CHR 0x0A \<or> c = CHR 0x0D)"

definition isDigit :: "char \<Rightarrow> bool" where
  \<comment> \<open>the class \<open>\d\<close>\<close>
  "isDigit c = (c \<in> set ''0123456789'')"

definition startsWith :: "string \<Rightarrow> string \<Rightarrow> bool" where
  "startsWith s p = (take (length p) s = p)"

definition endsWith :: "string \<Rightarrow> string \<Rightarrow> bool" where
  "endsWith s p = (length p \<le> length s \<and> drop (length s - length p) s = p)"

definition indexOf_from :: "string \<Rightarrow> string \<Rightarrow> nat \<Rightarrow> int" where
  \<comment> \<open>\<open>s.indexOf(t, pos)\<close>: the first index at or after \<open>pos\<close> where \<open>t\<close> occurs, or \<open>-1\<close>\<close>
  "indexOf_from s t pos =
     (case find (\<lambda>i. startsWith (drop i s) t) [min pos (length s) ..< Suc (length s)] of
        None \<Rightarrow> - 1
      | Some i \<Rightarrow> int i)"

definition findIndex :: "('a \<Rightarrow> bool) \<Rightarrow> 'a list \<Rightarrow> int" where
  \<comment> \<open>\<open>xs.findIndex(P)\<close>: the index of the first element satisfying \<open>P\<close>, or \<open>-1\<close>\<close>
  "findIndex P xs = (if list_ex P xs then int (length (takeWhile (\<lambda>x. \<not> P x) xs)) else - 1)"

definition indexOf_elem :: "'a list \<Rightarrow> 'a \<Rightarrow> int" where
  \<comment> \<open>\<open>xs.indexOf(x)\<close> on an array\<close>
  "indexOf_elem xs x = findIndex (\<lambda>y. y = x) xs"

definition rel_index :: "int \<Rightarrow> nat \<Rightarrow> nat" where
  \<comment> \<open>how \<open>slice\<close> reads a bound: a negative one counts from the end, and both are clamped\<close>
  "rel_index i n = (if i < 0 then nat (int n + i) else min (nat i) n)"

definition slice :: "'a list \<Rightarrow> int \<Rightarrow> int \<Rightarrow> 'a list" where
  \<comment> \<open>\<open>xs.slice(a, b)\<close>\<close>
  "slice xs a b =
     (let s = rel_index a (length xs); e = rel_index b (length xs)
      in take (e - s) (drop s xs))"

definition slice_from :: "'a list \<Rightarrow> int \<Rightarrow> 'a list" where
  \<comment> \<open>\<open>xs.slice(a)\<close>\<close>
  "slice_from xs a = drop (rel_index a (length xs)) xs"

lemma findIndex_ge: "- 1 \<le> findIndex P xs"
  by (simp add: findIndex_def)

lemma takeWhile_length_less:
  assumes "x \<in> set xs" "P x"
  shows "length (takeWhile (\<lambda>x. \<not> P x) xs) < length xs"
  using assms by (induction xs) auto

lemma findIndex_lt: "findIndex P xs < int (length xs)"
  by (auto simp: findIndex_def list_ex_iff dest: takeWhile_length_less)

lemma rel_index_pos: "0 < a \<Longrightarrow> 0 < n \<Longrightarrow> 0 < rel_index a n"
  by (simp add: rel_index_def)

lemma length_slice_from: "xs \<noteq> [] \<Longrightarrow> 0 < a \<Longrightarrow> length (slice_from xs a) < length xs"
  using rel_index_pos [of a "length xs"] by (simp add: slice_from_def)

lemma length_slice: "xs \<noteq> [] \<Longrightarrow> 0 < a \<Longrightarrow> length (slice xs a b) < length xs"
  using rel_index_pos [of a "length xs"] by (auto simp: slice_def Let_def min_def)

lemma slice_0_take: "0 \<le> k \<Longrightarrow> slice xs 0 k = take (nat k) xs"
  by (simp add: slice_def rel_index_def Let_def min_def)

lemma slice_from_drop: "0 \<le> k \<Longrightarrow> slice_from xs k = drop (nat k) xs"
  by (simp add: slice_from_def rel_index_def min_def)

lemma sublist_slice: "sublist (slice xs a b) xs"
  unfolding slice_def Let_def
  by (meson sublist_order.order_trans sublist_take sublist_drop)

lemma sublist_slice_from: "sublist (slice_from xs a) xs"
  by (simp add: slice_from_def)

lemma sublist_same_length: "sublist g ls \<Longrightarrow> length g = length ls \<Longrightarrow> g = ls"
  by (auto simp: sublist_def)


section \<open>The codeblock segmenter (src/Parsing/CodeblockParsing.ts)\<close>

subsection \<open>Fence lines\<close>

text \<open>
  Every pattern of the segmenter starts with \<^verbatim>\<open>^\s*(?:>\s*)*\<close>, which matches any
  run of white space and \<open>>\<close>. A fence character is neither, so the run that a
  successful match consumes is always the longest one.
\<close>

definition isQuoteOrSpace :: "char \<Rightarrow> bool" where
  "isQuoteOrSpace c = (isSpace c \<or> c = CHR ''>'')"

definition fenceRun :: "string \<Rightarrow> string" where
  \<comment> \<open>what \<^verbatim>\<open>(```+|~~~+)\<close> matches at the start of \<open>s\<close>; empty when it does not match\<close>
  "fenceRun s =
     (let b = takeWhile (\<lambda>c. c = CHR ''`'') s; t = takeWhile (\<lambda>c. c = CHR ''~'') s
      in if 3 \<le> length b then b else if 3 \<le> length t then t else [])"

definition testOpeningLine :: "string \<Rightarrow> string" where
  \<comment> \<open>\<^verbatim>\<open>/^(\s*(?:>\s*)*)(```+|~~~+)/\<close>, then no second occurrence of the fence
      from one character after it\<close>
  "testOpeningLine codeblockLine =
     (let g1 = takeWhile isQuoteOrSpace codeblockLine;
          g2 = fenceRun (dropWhile isQuoteOrSpace codeblockLine)
      in if g2 = [] then []
         else if indexOf_from codeblockLine g2 (length g1 + length g2 + 1) = - 1 then g2
         else [])"

definition getOpeningLine :: "string list \<Rightarrow> string option" where
  "getOpeningLine codeblockLines = find (\<lambda>line. testOpeningLine line \<noteq> []) codeblockLines"

definition openDelimiterOf :: "string \<Rightarrow> string option" where
  \<comment> \<open>group 1 of \<^verbatim>\<open>/^\s*(?:>\s*)*((?:```+|~~~+)).*$/\<close>; the tail \<^verbatim>\<open>.*$\<close> fails on a
      line terminator\<close>
  "openDelimiterOf line =
     (let r = dropWhile isQuoteOrSpace line; d = fenceRun r
      in if d \<noteq> [] \<and> \<not> list_ex isLineTerminator (drop (length d) r) then Some d else None)"

definition isClosingLine :: "string \<Rightarrow> string \<Rightarrow> bool" where
  \<comment> \<open>\<^verbatim>\<open>^\s*(?:>\s*)*${openDelimiter}(?!${openDelimiter[0]})$\<close>: the delimiter ends the line\<close>
  "isClosingLine openDelimiter line = (dropWhile isQuoteOrSpace line = openDelimiter)"

definition isAdmonitionLine :: "string \<Rightarrow> bool" where
  \<comment> \<open>\<^verbatim>\<open>/^\s*(?:>\s*)*(?:```+|~~~+) *ad-.*$/\<close>\<close>
  "isAdmonitionLine line =
     (let r = dropWhile isQuoteOrSpace line; d = fenceRun r;
          t = dropWhile (\<lambda>c. c = CHR '' '') (drop (length d) r)
      in d \<noteq> [] \<and> startsWith t ''ad-'' \<and> \<not> list_ex isLineTerminator (drop 3 t))"

lemma getOpeningLine_index:
  assumes "getOpeningLine xs = Some ol"
  shows "0 \<le> indexOf_elem xs ol"
proof -
  from assms have "ol \<in> set xs"
    by (auto simp: getOpeningLine_def find_Some_iff)
  then show ?thesis
    by (auto simp: indexOf_elem_def findIndex_def list_ex_iff)
qed

subsection \<open>parseCodeblockSection and parseCodeblockSource\<close>

text \<open>
  The source pushes every group onto the array \<open>codeblocks\<close> of the enclosing
  \<open>parseCodeblockSource\<close>; the model returns the groups in the order they are pushed.
  \<open>admonitions\<close> is whether the admonition plugin is installed.
\<close>

function parseCodeblockSection :: "bool \<Rightarrow> string list \<Rightarrow> string list list" where
  "parseCodeblockSection admonitions codeSection =
     (if codeSection = [] then []
      else case getOpeningLine codeSection of
        None \<Rightarrow> []
      | Some openingCodeblockLine \<Rightarrow>
          (case openDelimiterOf openingCodeblockLine of
             None \<Rightarrow> []
           | Some openDelimiter \<Rightarrow>
               (let openDelimiterIndex = indexOf_elem codeSection openingCodeblockLine;
                    closeDelimiterIndex =
                      findIndex (isClosingLine openDelimiter)
                        (slice_from codeSection (openDelimiterIndex + 1))
                in (if \<not> admonitions \<or> \<not> isAdmonitionLine openingCodeblockLine
                    then [slice codeSection 0 (openDelimiterIndex + 2 + closeDelimiterIndex)]
                    else parseCodeblockSection admonitions
                           (slice codeSection (openDelimiterIndex + 1)
                              (openDelimiterIndex + 1 + closeDelimiterIndex)))
                   @ parseCodeblockSection admonitions
                       (slice_from codeSection (openDelimiterIndex + 1 + closeDelimiterIndex + 1)))))"
  by pat_completeness auto
termination
proof (relation "measure (\<lambda>(a, xs). length xs)", goal_cases)
  case 1
  show ?case by simp
next
  case (2 adm xs ol d oi ci)
  then have "0 \<le> oi" using getOpeningLine_index by simp
  with 2 show ?case by (simp add: length_slice)
next
  case (3 adm xs ol d oi ci)
  then have "0 \<le> oi" using getOpeningLine_index by simp
  moreover have "- 1 \<le> ci" using 3 findIndex_ge by simp
  ultimately show ?case using 3 by (simp add: length_slice_from)
qed

declare parseCodeblockSection.simps [simp del]

definition arraysEqual :: "'a list \<Rightarrow> 'a list \<Rightarrow> bool" where
  "arraysEqual array1 array2 =
     (length array1 = length array2 \<and> list_all (\<lambda>el. el \<in> set array2) array1)"

text \<open>
  \<open>parseCodeblockSource\<close> returns the parameters parsed from each group together with
  the flag \<open>nested\<close>; the model keeps the groups themselves.
\<close>

record codeblockSource =
  codeblocks :: "string list list"
  nested :: bool

definition parseCodeblockSource :: "bool \<Rightarrow> string list \<Rightarrow> codeblockSource" where
  "parseCodeblockSource admonitions codeSection =
     (let cbs = parseCodeblockSection admonitions codeSection
      in \<lparr> codeblocks = cbs,
           nested = (case cbs of [] \<Rightarrow> True | g # _ \<Rightarrow> \<not> arraysEqual codeSection g) \<rparr>)"

definition sampleDocument :: "string list" where
  "sampleDocument =
     [''intro'', ''```py'', ''x = 1'', ''```'', ''~~~'', ''y'', ''~~~'', ''outro'']"

definition sampleBlock :: "string list" where
  "sampleBlock = [''```py'', ''x = 1'', ''```'']"

definition leadingTextBlock :: "string list" where
  "leadingTextBlock = [''intro'', ''```py'', ''x = 1'', ''```'']"

definition exactlyOneCodeblock :: "string list \<Rightarrow> bool" where
  \<comment> \<open>the words of the specification, \<open>the input was itself exactly one top-level
      codeblock\<close>: the first line opens a fence, and the first line that closes this
      fence is the last line\<close>
  "exactlyOneCodeblock ls =
     (case ls of
        [] \<Rightarrow> False
      | l # body \<Rightarrow>
          testOpeningLine l \<noteq> [] \<and>
          (case openDelimiterOf l of
             None \<Rightarrow> False
           | Some d \<Rightarrow> body \<noteq> [] \<and> findIndex (isClosingLine d) body = int (length body) - 1))"

subsection \<open>The groups partition a prefix of the document\<close>

lemma segment_partition:
  assumes "adm \<longrightarrow> \<not> list_ex isAdmonitionLine ls"
  shows "\<exists>rest. ls = concat (parseCodeblockSection adm ls) @ rest
           \<and> parseCodeblockSection adm rest = []"
  using assms
proof (induction adm ls rule: parseCodeblockSection.induct)
  case (1 adm ls)
  have stop: "parseCodeblockSection adm ls = [] \<Longrightarrow> ?case"
    by (rule exI [of _ ls]) simp
  show ?case
  proof (cases "ls = []")
    case True
    then show ?thesis by (intro stop) (simp add: parseCodeblockSection.simps)
  next
    case ne: False
    show ?thesis
    proof (cases "getOpeningLine ls")
      case None
      with ne show ?thesis by (intro stop) (simp add: parseCodeblockSection.simps)
    next
      case (Some ol)
      then have ol_in: "ol \<in> set ls"
        by (auto simp: getOpeningLine_def find_Some_iff)
      show ?thesis
      proof (cases "openDelimiterOf ol")
        case None
        with ne Some show ?thesis by (intro stop) (simp add: parseCodeblockSection.simps)
      next
        case d: (Some d)
        define oi where "oi = indexOf_elem ls ol"
        define ci where "ci = findIndex (isClosingLine d) (slice_from ls (oi + 1))"
        define k where "k = nat (oi + 1 + ci + 1)"
        have "0 \<le> oi" using Some getOpeningLine_index oi_def by simp
        moreover have "- 1 \<le> ci" using findIndex_ge ci_def by simp
        ultimately have k0: "0 \<le> oi + 1 + ci + 1" by simp
        have no_ad: "\<not> adm \<or> \<not> isAdmonitionLine ol"
          using "1.prems" ol_in by (auto simp: list_ex_iff)
        have "parseCodeblockSection adm ls
            = [slice ls 0 (oi + 2 + ci)]
              @ parseCodeblockSection adm (slice_from ls (oi + 1 + ci + 1))"
          using ne Some d no_ad
          by (subst parseCodeblockSection.simps) (auto simp: Let_def oi_def ci_def)
        moreover have "oi + 2 + ci = oi + 1 + ci + 1" by simp
        then have "slice ls 0 (oi + 2 + ci) = take k ls"
          using k0 slice_0_take [of "oi + 1 + ci + 1" ls] by (simp only: k_def)
        moreover have "slice_from ls (oi + 1 + ci + 1) = drop k ls"
          using k0 by (simp add: slice_from_drop k_def)
        ultimately have unfold: "parseCodeblockSection adm ls
            = take k ls # parseCodeblockSection adm (drop k ls)"
          by simp
        have "adm \<longrightarrow> \<not> list_ex isAdmonitionLine (slice_from ls (oi + 1 + ci + 1))"
          using "1.prems" by (auto simp: list_ex_iff slice_from_def dest: in_set_dropD)
        from "1.IH"(2) [OF ne Some d oi_def ci_def this]
        obtain rest where rest: "drop k ls = concat (parseCodeblockSection adm (drop k ls)) @ rest"
            "parseCodeblockSection adm rest = []"
          using k0 by (auto simp: slice_from_drop k_def)
        have "ls = take k ls @ drop k ls" by simp
        also have "\<dots> = concat (parseCodeblockSection adm ls) @ rest"
          using rest(1) unfold by simp
        finally show ?thesis using rest(2) by blast
      qed
    qed
  qed
qed

lemma sampleDocument_groups:
  "parseCodeblockSection True sampleDocument =
     [[''intro'', ''```py'', ''x = 1'', ''```''], [''~~~'', ''y'', ''~~~'']]"
  by code_simp

lemma sampleDocument_no_admonition: "\<not> list_ex isAdmonitionLine sampleDocument"
  by code_simp

text \<open>
  Claim C4. When no admonition is involved (the admonition plugin is absent, or no line
  opens an admonition block), the groups emitted by the segmenter, concatenated in order,
  followed by the lines after the last group, are the document: no line is dropped or
  repeated. The lines after the last group hold no further codeblock: the segmenter emits
  nothing on them. Each group starts where the previous one ended, so the lines before
  an opening fence belong to its group. The equation needs no closing fence to exist.
\<close>

theorem segments_reconstruct_document:
  assumes "adm \<longrightarrow> \<not> list_ex isAdmonitionLine ls"
  shows "concat (parseCodeblockSection adm ls)
           @ drop (length (concat (parseCodeblockSection adm ls))) ls = ls
         \<and> parseCodeblockSection adm
             (drop (length (concat (parseCodeblockSection adm ls))) ls) = []"
proof -
  from segment_partition [OF assms] obtain rest where
    r: "ls = concat (parseCodeblockSection adm ls) @ rest" "parseCodeblockSection adm rest = []"
    by blast
  have "drop (length (concat (parseCodeblockSection adm ls))) ls = rest"
    by (subst (2) r(1)) simp
  with r show ?thesis by simp
qed

theorem segments_reconstruct_document_witness:
  "\<not> list_ex isAdmonitionLine sampleDocument
   \<and> concat (parseCodeblockSection True sampleDocument) @ [''outro''] = sampleDocument
   \<and> parseCodeblockSection True [''outro''] = []"
  using segments_reconstruct_document [of True sampleDocument] sampleDocument_no_admonition
  by (simp add: sampleDocument_groups) (simp add: sampleDocument_def)

subsection \<open>The flag nested\<close>

lemma group_sublist:
  "g \<in> set (parseCodeblockSection adm ls) \<Longrightarrow> sublist g ls"
proof (induction adm ls rule: parseCodeblockSection.induct)
  case (1 adm ls)
  show ?case
  proof (cases "ls = []")
    case True
    with "1.prems" show ?thesis by (simp add: parseCodeblockSection.simps)
  next
    case ne: False
    show ?thesis
    proof (cases "getOpeningLine ls")
      case None
      with ne "1.prems" show ?thesis by (simp add: parseCodeblockSection.simps)
    next
      case (Some ol)
      show ?thesis
      proof (cases "openDelimiterOf ol")
        case None
        with ne Some "1.prems" show ?thesis by (simp add: parseCodeblockSection.simps)
      next
        case (Some d)
        define oi where "oi = indexOf_elem ls ol"
        define ci where "ci = findIndex (isClosingLine d) (slice_from ls (oi + 1))"
        note defs = oi_def ci_def
        from "1.prems" ne \<open>getOpeningLine ls = Some ol\<close> Some
        consider
            (emit) "g = slice ls 0 (oi + 2 + ci)"
          | (body) "adm" "isAdmonitionLine ol"
                   "g \<in> set (parseCodeblockSection adm (slice ls (oi + 1) (oi + 1 + ci)))"
          | (rest) "g \<in> set (parseCodeblockSection adm (slice_from ls (oi + 1 + ci + 1)))"
          by (subst (asm) parseCodeblockSection.simps)
             (auto simp: Let_def defs split: if_splits)
        then show ?thesis
        proof cases
          case emit
          then show ?thesis by (simp add: sublist_slice)
        next
          case body
          then have "sublist g (slice ls (oi + 1) (oi + 1 + ci))"
            using "1.IH"(1) [OF ne \<open>getOpeningLine ls = Some ol\<close> Some oi_def ci_def]
            by simp
          then show ?thesis
            using sublist_slice sublist_order.order_trans by blast
        next
          case rest
          then have "sublist g (slice_from ls (oi + 1 + ci + 1))"
            using "1.IH"(2) [OF ne \<open>getOpeningLine ls = Some ol\<close> Some oi_def ci_def]
            by simp
          then show ?thesis
            using sublist_slice_from sublist_order.order_trans by blast
        qed
      qed
    qed
  qed
qed

lemma arraysEqual_sublist:
  assumes "sublist g ls"
  shows "arraysEqual ls g \<longleftrightarrow> mset ls = mset g"
proof
  assume "arraysEqual ls g"
  then have "length g = length ls" by (simp add: arraysEqual_def)
  with assms have "g = ls" by (rule sublist_same_length)
  then show "mset ls = mset g" by simp
next
  assume m: "mset ls = mset g"
  then have "length g = length ls" by (metis size_mset)
  with assms have "g = ls" by (rule sublist_same_length)
  then show "arraysEqual ls g" by (simp add: arraysEqual_def list_all_iff)
qed

lemma sampleBlock_groups: "parseCodeblockSection False sampleBlock = [sampleBlock]"
  by code_simp

lemma sampleBlock_one_codeblock: "exactlyOneCodeblock sampleBlock"
  by code_simp

lemma leadingTextBlock_groups:
  "parseCodeblockSection False leadingTextBlock = [leadingTextBlock]"
  "parseCodeblockSection True leadingTextBlock = [leadingTextBlock]"
  by code_simp+

lemma one_codeblock_groups:
  assumes "exactlyOneCodeblock ls" and "\<not> (adm \<and> isAdmonitionLine (hd ls))"
  shows "parseCodeblockSection adm ls = [ls]"
proof -
  from assms(1) obtain l body d where ls: "ls = l # body"
    and t: "testOpeningLine l \<noteq> []" and d: "openDelimiterOf l = Some d"
    and b: "body \<noteq> []" and c: "findIndex (isClosingLine d) body = int (length body) - 1"
    by (auto simp: exactlyOneCodeblock_def split: list.splits option.splits)
  have ol: "getOpeningLine ls = Some l" using t by (simp add: getOpeningLine_def ls)
  have oi: "indexOf_elem ls l = 0" by (simp add: indexOf_elem_def findIndex_def ls)
  have sf: "slice_from ls 1 = body"
    by (simp add: slice_from_def rel_index_def ls)
  have k: "2 + findIndex (isClosingLine d) (slice_from ls 1) = int (length ls)"
    unfolding sf c by (simp add: ls)
  have g: "slice ls 0 (int (length ls)) = ls" by (simp add: slice_0_take)
  have r: "slice_from ls (int (length ls)) = []" by (simp add: slice_from_drop)
  have e: "parseCodeblockSection adm [] = []" by (simp add: parseCodeblockSection.simps)
  have na: "\<not> adm \<or> \<not> isAdmonitionLine l" using assms(2) by (simp add: ls)
  have ne: "ls \<noteq> []" by (simp add: ls)
  have "parseCodeblockSection adm ls
          = [slice ls 0 (2 + findIndex (isClosingLine d) (slice_from ls 1))]
            @ parseCodeblockSection adm
                (slice_from ls (2 + findIndex (isClosingLine d) (slice_from ls 1)))"
    using na
    by (subst parseCodeblockSection.simps) (simp add: ne ol d oi Let_def)
  then show ?thesis unfolding k g r e by simp
qed

lemma first_group_is_prefix:
  assumes "adm \<longrightarrow> \<not> list_ex isAdmonitionLine ls"
      and "parseCodeblockSection adm ls = g # gs"
  shows "prefix g ls"
proof -
  from segment_partition [OF assms(1)] obtain rest where
    "ls = concat (parseCodeblockSection adm ls) @ rest" by blast
  with assms(2) have "ls = g @ (concat gs @ rest)" by simp
  then show ?thesis by (metis prefixI)
qed

text \<open>
  Claim C5, as amended. Whenever \<open>parseCodeblockSource\<close> finds at least one group,
  \<open>nested\<close> is false exactly when the input and the first group are equal as multisets of
  lines, and that is exactly when the first group is the whole input. (\<open>arraysEqual\<close>
  itself only compares the lengths and asks that every input line occurs in the group;
  it agrees with multiset equality here because every group is a contiguous part of
  the input.) An input that is exactly one top-level codeblock gives \<open>nested = false\<close>,
  unless it opens an admonition while the admonition plugin is installed. The converse
  does not hold: without admonitions the first group starts at the first line of the
  input (lemma \<open>first_group_is_prefix\<close>), so the lines before the opening fence belong
  to it.
\<close>

theorem nested_false_iff_multiset_equal:
  assumes "codeblocks (parseCodeblockSource adm ls) = g # gs"
  shows "(nested (parseCodeblockSource adm ls) = False \<longleftrightarrow> mset ls = mset g)
         \<and> (nested (parseCodeblockSource adm ls) = False \<longleftrightarrow> g = ls)
         \<and> (exactlyOneCodeblock ls \<and> \<not> (adm \<and> isAdmonitionLine (hd ls))
              \<longrightarrow> nested (parseCodeblockSource adm ls) = False)"
proof -
  from assms have cbs: "parseCodeblockSection adm ls = g # gs"
    by (simp add: parseCodeblockSource_def Let_def)
  then have sub: "sublist g ls" using group_sublist [of g adm ls] by simp
  then have a: "arraysEqual ls g \<longleftrightarrow> mset ls = mset g" by (rule arraysEqual_sublist)
  have n: "nested (parseCodeblockSource adm ls) = False \<longleftrightarrow> arraysEqual ls g"
    using cbs by (simp add: parseCodeblockSource_def Let_def)
  have b: "mset ls = mset g \<longleftrightarrow> g = ls"
  proof
    assume "mset ls = mset g"
    then have "length g = length ls" by (metis size_mset)
    with sub show "g = ls" by (rule sublist_same_length)
  qed simp
  have c: "nested (parseCodeblockSource adm ls) = False"
    if "exactlyOneCodeblock ls" "\<not> (adm \<and> isAdmonitionLine (hd ls))"
  proof -
    from one_codeblock_groups [OF that] cbs have "g = ls" by simp
    with n a b show ?thesis by simp
  qed
  from n a b c show ?thesis by blast
qed

theorem nested_false_iff_multiset_equal_witness:
  "codeblocks (parseCodeblockSource False sampleBlock) = sampleBlock # []
   \<and> exactlyOneCodeblock sampleBlock
   \<and> nested (parseCodeblockSource False sampleBlock) = False"
proof -
  have cbs: "codeblocks (parseCodeblockSource False sampleBlock) = sampleBlock # []"
    by (simp add: parseCodeblockSource_def Let_def sampleBlock_groups)
  from nested_false_iff_multiset_equal [OF cbs] cbs sampleBlock_one_codeblock
  show ?thesis by simp
qed

text \<open>
  The input \<open>intro\<close>, \<^verbatim>\<open>```py\<close>, \<open>x = 1\<close>, \<^verbatim>\<open>```\<close> is not one codeblock: its first line
  opens no fence. Its only group is the whole input, and \<open>nested\<close> is false.
\<close>

theorem nested_false_with_leading_text_counterexample:
  "codeblocks (parseCodeblockSource False leadingTextBlock) = [leadingTextBlock]
   \<and> nested (parseCodeblockSource False leadingTextBlock) = False
   \<and> testOpeningLine (hd leadingTextBlock) = []
   \<and> \<not> exactlyOneCodeblock leadingTextBlock"
proof -
  have t: "testOpeningLine (hd leadingTextBlock) = []" "\<not> exactlyOneCodeblock leadingTextBlock"
    by code_simp+
  have "arraysEqual leadingTextBlock leadingTextBlock"
    by (simp add: arraysEqual_def list_all_iff)
  with t show ?thesis
    by (simp add: parseCodeblockSource_def Let_def leadingTextBlock_groups)
qed


section \<open>Numbers, errors and the regular expression engine\<close>

text \<open>
  A number is an integer \<open>Num k\<close>, a finite number \<open>Frac q\<close> that is no integer, an
  infinity or \<open>NaN\<close>; the arithmetic below builds \<open>Frac q\<close> for no integer \<open>q\<close>, so that
  \<open>===\<close> is the equality of the datatype. An exception is a value: the class of the
  JavaScript error and its message. The regular expressions written in the source are
  translated by hand, each next to its pattern. A pattern that comes from the user is
  compiled by the platform: \<open>newRegExp\<close> stands for \<^verbatim>\<open>new RegExp(pattern)\<close> and gives
  the test of the compiled expression, or \<open>None\<close> when the constructor throws.
\<close>

datatype jsnum = Num int | NaN | Frac rat | PosInfinity | NegInfinity

datatype jserror = Error string | TypeError string | SyntaxError string

type_synonym regexEngine = "string \<Rightarrow> (string \<Rightarrow> bool) option"

definition digitValue :: "char \<Rightarrow> int" where
  "digitValue c = int (of_char c) - 48"

definition decimalValue :: "string \<Rightarrow> int" where
  "decimalValue ds = foldl (\<lambda>n c. 10 * n + digitValue c) 0 ds"

definition isHexDigit :: "char \<Rightarrow> bool" where
  "isHexDigit c = (c \<in> set ''0123456789abcdefABCDEF'')"

definition hexDigitValue :: "char \<Rightarrow> int" where
  "hexDigitValue c =
     (if isDigit c then int (of_char c) - 48
      else if c \<in> set ''abcdef'' then int (of_char c) - 87
      else int (of_char c) - 55)"

definition parseInt :: "string \<Rightarrow> jsnum" where
  \<comment> \<open>\<open>parseInt(s)\<close> without a radix: white space, a sign, then hexadecimal digits after
      \<open>0x\<close> and decimal digits otherwise; \<open>NaN\<close> when there is no digit\<close>
  "parseInt s =
     (let t = dropWhile isSpace s;
          negative = startsWith t ''-'';
          u = (if startsWith t ''-'' \<or> startsWith t ''+'' then drop 1 t else t);
          hex = (startsWith u ''0x'' \<or> startsWith u ''0X'');
          ds = (if hex then takeWhile isHexDigit (drop 2 u) else takeWhile isDigit u);
          v = (if hex then foldl (\<lambda>n c. 16 * n + hexDigitValue c) 0 ds else decimalValue ds)
      in if ds = [] then NaN else Num (if negative then - v else v))"

definition trim :: "string \<Rightarrow> string" where
  "trim s = rev (dropWhile isSpace (rev (dropWhile isSpace s)))"

fun split :: "char \<Rightarrow> string \<Rightarrow> string list" where
  \<comment> \<open>\<open>s.split(sep)\<close> for a separator of one character; the result is never empty\<close>
  "split sep [] = [[]]"
| "split sep (c # s) =
     (if c = sep then [] # split sep s
      else (case split sep s of x # xs \<Rightarrow> (c # x) # xs | [] \<Rightarrow> [[c]]))"

fun join :: "string \<Rightarrow> string list \<Rightarrow> string" where
  \<comment> \<open>\<open>xs.join(sep)\<close>\<close>
  "join sep [] = []"
| "join sep [x] = x"
| "join sep (x # y # xs) = x @ sep @ join sep (y # xs)"

definition substring :: "string \<Rightarrow> int \<Rightarrow> int \<Rightarrow> string" where
  \<comment> \<open>\<open>s.substring(a, b)\<close>: both bounds clamped to the string, and swapped when \<open>a > b\<close>\<close>
  "substring s a b =
     (let n = int (length s);
          a' = max 0 (min a n); b' = max 0 (min b n)
      in take (nat (max a' b') - nat (min a' b')) (drop (nat (min a' b')) s))"

definition addToSet :: "'a \<Rightarrow> 'a list \<Rightarrow> 'a list" where
  \<comment> \<open>\<open>set.add(x)\<close>: a \<open>Set\<close> keeps its elements in the order they were first added\<close>
  "addToSet x xs = (if x \<in> set xs then xs else xs @ [x])"

definition isSlashDelimited :: "string \<Rightarrow> bool" where
  \<comment> \<open>\<^verbatim>\<open>/^\/(.*)\/$/\<close>\<close>
  "isSlashDelimited s =
     (2 \<le> length s \<and> hd s = CHR ''/'' \<and> last s = CHR ''/''
      \<and> \<not> list_ex isLineTerminator (butlast (tl s)))"

definition stripSlashes :: "string \<Rightarrow> string" where
  \<comment> \<open>\<^verbatim>\<open>s.replace(/^\/(.*)\/$/, "$1")\<close>\<close>
  "stripSlashes s = (if isSlashDelimited s then butlast (tl s) else s)"

fun hasQuoted :: "char \<Rightarrow> string \<Rightarrow> bool" where
  \<comment> \<open>\<^verbatim>\<open>/".*"/\<close> and \<^verbatim>\<open>/'.*'/\<close>: two quotes with no line terminator between them\<close>
  "hasQuoted q [] = False"
| "hasQuoted q (c # s) =
     ((c = q \<and> q \<in> set (takeWhile (\<lambda>d. \<not> isLineTerminator d) s)) \<or> hasQuoted q s)"

definition anyRegExp :: regexEngine where
  \<comment> \<open>an engine for the examples: every pattern compiles, to a test that never matches\<close>
  "anyRegExp pattern = Some (\<lambda>line. False)"











lemma set_addToSet: "set (addToSet x xs) = insert x (set xs)"
  by (auto simp: addToSet_def)


lemma set_foldl_addToSet:
  "set (foldl (\<lambda>acc n. addToSet n acc) acc xs) = set acc \<union> set xs"
  by (induction xs arbitrary: acc) (auto simp: addToSet_def)


lemma upto_2_4: "[2..4] = [2, 3, 4::int]"
  by code_simp


section \<open>Data model\<close>

text \<open>
  The interfaces of src/Parsing/ReferenceParsing.ts, src/Referencing.ts and
  src/Parsing/CodeblockParsing.ts. A field keeps its name where the name is free; the
  fields of the reference interfaces carry the initials of their interface, and a nested
  object is flattened (\<open>fold.enabled\<close> is \<open>fold_enabled\<close>). A \<open>Record<string, T>\<close> is a
  map. The metadata of an external reference is a list of keys and texts.
\<close>

datatype LineIdentifier = LNull | LNumber jsnum | LString string | LRegExp string

type_synonym ExtRefMetadata = "(string \<times> string) list"

record ExtRefParams =
  ep_id :: string
  ep_rawUrl :: string
  ep_hostname :: string
  ep_headers :: "string \<rightharpoonup> string"
  ep_storePath :: string

record ExtRef =
  er_id :: string
  er_content :: string
  er_metadata :: ExtRefMetadata
  er_params :: ExtRefParams

record RefParams =
  rp_path :: string
  rp_storePath :: string
  rp_language :: string
  rp_start :: LineIdentifier
  rp_end :: LineIdentifier
  rp_external :: "ExtRefParams option"

record IdCache =
  sourcePaths :: "string list"
  extRefParams :: ExtRefParams

record Highlights =
  lineNumbers :: "jsnum list"
  plainText :: "string list"
  regularExpressions :: "string list"

record CodeblockParameters =
  language :: string
  title :: string
  reference :: string
  fold_enabled :: bool
  fold_placeholder :: string
  lineNumbers_alwaysEnabled :: bool
  lineNumbers_alwaysDisabled :: bool
  lineNumbers_offset :: int
  lineUnwrap_alwaysEnabled :: bool
  lineUnwrap_alwaysDisabled :: bool
  lineUnwrap_activeWrap :: bool
  highlights_default :: Highlights
  highlights_alternative :: "string \<rightharpoonup> Highlights"
  ignore :: bool
  externalReference :: "ExtRef option"

definition emptyHighlights :: Highlights where
  "emptyHighlights = \<lparr>lineNumbers = [], plainText = [], regularExpressions = []\<rparr>"

definition initialParameters :: CodeblockParameters where
  \<comment> \<open>the record that \<open>parseCodeblockParameters\<close> starts from\<close>
  "initialParameters =
     \<lparr>language = [], title = [], reference = [],
      fold_enabled = False, fold_placeholder = [],
      lineNumbers_alwaysEnabled = False, lineNumbers_alwaysDisabled = False,
      lineNumbers_offset = 0,
      lineUnwrap_alwaysEnabled = False, lineUnwrap_alwaysDisabled = False,
      lineUnwrap_activeWrap = False,
      highlights_default = emptyHighlights, highlights_alternative = Map.empty,
      ignore = False, externalReference = None\<rparr>"


section \<open>Highlight rules (src/Parsing/CodeblockParsing.ts)\<close>

fun hasNumberRange :: "string \<Rightarrow> bool" where
  \<comment> \<open>\<^verbatim>\<open>/\d+-\d+/.test(s)\<close>: somewhere a digit, a hyphen and a digit\<close>
  "hasNumberRange (a # b # c # s) =
     ((isDigit a \<and> b = CHR ''-'' \<and> isDigit c) \<or> hasNumberRange (b # c # s))"
| "hasNumberRange _ = False"

text \<open>
  \<open>highlightRule\<close> is the body of the \<open>forEach\<close> of \<open>parseHighlightedLines\<close>; the three
  sets of the source are the three fields of the accumulator. A number is truthy when it
  is neither \<open>0\<close> nor \<open>NaN\<close>. Every \<open>new RegExp\<close> is a new object, so the set of regular
  expressions never merges two of them: the model lists the pattern of each.
\<close>

definition highlightRule :: "regexEngine \<Rightarrow> Highlights \<Rightarrow> string \<Rightarrow> Highlights" where
  "highlightRule newRegExp h rule =
     (if hasNumberRange rule then
        (case map parseInt (split (CHR ''-'') rule) of
           Num startN # Num endN # _ \<Rightarrow>
             (if startN \<noteq> 0 \<and> endN \<noteq> 0 \<and> startN \<le> endN
              then h\<lparr>lineNumbers := foldl (\<lambda>acc n. addToSet n acc) (lineNumbers h)
                                      (map Num [startN..endN])\<rparr>
              else h)
         | _ \<Rightarrow> h)
      else if isSlashDelimited rule then
        (if newRegExp (stripSlashes rule) \<noteq> None
         then h\<lparr>regularExpressions := regularExpressions h @ [stripSlashes rule]\<rparr>
         else h)
      else if hasQuoted (CHR 0x22) rule then
        h\<lparr>plainText := addToSet (substring rule 1 (int (length rule) - 1)) (plainText h)\<rparr>
      else if hasQuoted (CHR 0x27) rule then
        h\<lparr>plainText := addToSet (substring rule 1 (int (length rule) - 1)) (plainText h)\<rparr>
      else if list_ex (\<lambda>c. \<not> isDigit c) rule then
        h\<lparr>plainText := addToSet rule (plainText h)\<rparr>
      else if list_ex isDigit rule then
        h\<lparr>lineNumbers := addToSet (parseInt rule) (lineNumbers h)\<rparr>
      else h)"

definition parseHighlightedLines :: "regexEngine \<Rightarrow> string \<Rightarrow> Highlights" where
  "parseHighlightedLines newRegExp highlightedLinesString =
     foldl (highlightRule newRegExp) emptyHighlights (split (CHR '','') highlightedLinesString)"

definition isWordChar :: "char \<Rightarrow> bool" where
  \<comment> \<open>the class \<open>\w\<close>\<close>
  "isWordChar c =
     (c \<in> set ''abcdefghijklmnopqrstuvwxyzABCDEFGHIJKLMNOPQRSTUVWXYZ0123456789_'')"

definition highlightMatch :: "string \<Rightarrow> (string \<times> string) option" where
  \<comment> \<open>groups 1 and 2 of \<^verbatim>\<open>/^(\w+)[:=](.+)$/\<close>\<close>
  "highlightMatch s =
     (let name = takeWhile isWordChar s; r = dropWhile isWordChar s
      in if name \<noteq> [] \<and> r \<noteq> [] \<and> (hd r = CHR '':'' \<or> hd r = CHR ''='')
            \<and> tl r \<noteq> [] \<and> \<not> list_ex isLineTerminator (tl r)
         then Some (name, tl r) else None)"

definition isBraceShorthand :: "string \<Rightarrow> bool" where
  \<comment> \<open>\<^verbatim>\<open>/^{[\d-,]+}$/\<close>\<close>
  "isBraceShorthand s =
     (3 \<le> length s \<and> hd s = CHR ''{'' \<and> last s = CHR ''}''
      \<and> list_all (\<lambda>c. isDigit c \<or> c = CHR ''-'' \<or> c = CHR '','') (butlast (tl s)))"

text \<open>
  The theme is declared in src/Settings.ts; \<open>addHighlights\<close> only asks whether a name is
  \<open>in theme.colours.light.highlights.alternativeHighlights\<close>, and the model takes that
  test as its last argument.
\<close>

definition addHighlights ::
  "regexEngine \<Rightarrow> string \<Rightarrow> CodeblockParameters \<Rightarrow> (string \<Rightarrow> bool) \<Rightarrow> CodeblockParameters" where
  "addHighlights newRegExp parameterString codeblockParameters inAlternativeHighlights =
     (case highlightMatch parameterString of
        Some (name, rules) \<Rightarrow>
          (if name = ''hl''
           then codeblockParameters
                  \<lparr>highlights_default := parseHighlightedLines newRegExp rules\<rparr>
           else if inAlternativeHighlights name
           then codeblockParameters
                  \<lparr>highlights_alternative :=
                     (highlights_alternative codeblockParameters)
                       (name \<mapsto> parseHighlightedLines newRegExp rules)\<rparr>
           else codeblockParameters)
      | None \<Rightarrow>
          (if isBraceShorthand parameterString
           then codeblockParameters
                  \<lparr>highlights_default :=
                     parseHighlightedLines newRegExp (slice parameterString 1 (- 1))\<rparr>
           else codeblockParameters))"

definition noAlternativeHighlights :: "string \<Rightarrow> bool" where
  \<comment> \<open>a theme without alternative highlights\<close>
  "noAlternativeHighlights name = False"

subsection \<open>A range rule\<close>








subsection \<open>A list of rules\<close>

lemma step_lineNumbers:
  "set (lineNumbers (highlightRule e h r)) =
     set (lineNumbers h) \<union> set (lineNumbers (highlightRule e emptyHighlights r))"
  by (auto simp: highlightRule_def emptyHighlights_def set_foldl_addToSet set_addToSet
        split: list.splits jsnum.splits)

lemma step_plainText:
  "set (plainText (highlightRule e h r)) =
     set (plainText h) \<union> set (plainText (highlightRule e emptyHighlights r))"
  by (auto simp: highlightRule_def emptyHighlights_def set_addToSet
        split: list.splits jsnum.splits)

lemma step_regularExpressions:
  "mset (regularExpressions (highlightRule e h r)) =
     mset (regularExpressions h) + mset (regularExpressions (highlightRule e emptyHighlights r))"
  by (auto simp: highlightRule_def emptyHighlights_def split: list.splits jsnum.splits)

lemma fold_lineNumbers:
  "set (lineNumbers (foldl (highlightRule e) h rs)) =
     set (lineNumbers h) \<union> (\<Union>r\<in>set rs. set (lineNumbers (highlightRule e emptyHighlights r)))"
proof (induction rs arbitrary: h)
  case Nil
  show ?case by simp
next
  case (Cons r rs)
  show ?case by (simp add: Cons.IH step_lineNumbers [of e h r] Un_assoc)
qed

lemma fold_plainText:
  "set (plainText (foldl (highlightRule e) h rs)) =
     set (plainText h) \<union> (\<Union>r\<in>set rs. set (plainText (highlightRule e emptyHighlights r)))"
proof (induction rs arbitrary: h)
  case Nil
  show ?case by simp
next
  case (Cons r rs)
  show ?case by (simp add: Cons.IH step_plainText [of e h r] Un_assoc)
qed

lemma fold_regularExpressions:
  "mset (regularExpressions (foldl (highlightRule e) h rs)) =
     mset (regularExpressions h)
     + (\<Sum>r\<in>#mset rs. mset (regularExpressions (highlightRule e emptyHighlights r)))"
proof (induction rs arbitrary: h)
  case Nil
  show ?case by simp
next
  case (Cons r rs)
  show ?case by (simp add: Cons.IH step_regularExpressions [of e h r] add.assoc)
qed

lemma rules_order_irrelevant:
  assumes "mset (split (CHR '','') s1) = mset (split (CHR '','') s2)"
  shows "set (lineNumbers (parseHighlightedLines e s1))
           = set (lineNumbers (parseHighlightedLines e s2))
         \<and> set (plainText (parseHighlightedLines e s1))
           = set (plainText (parseHighlightedLines e s2))
         \<and> mset (regularExpressions (parseHighlightedLines e s1))
           = mset (regularExpressions (parseHighlightedLines e s2))"
proof -
  from assms have "set (split (CHR '','') s1) = set (split (CHR '','') s2)"
    by (rule mset_eq_setD)
  then show ?thesis
    by (simp add: parseHighlightedLines_def fold_lineNumbers fold_plainText
          fold_regularExpressions assms)
qed

lemma split_spec:
  \<open>split (CHR '','') ''2-4,/foo.*/,"bar",7'' = [''2-4'', ''/foo.*/'', ''"bar"'', ''7'']\<close>
  by code_simp

lemma rule_2_4:
  "highlightRule e h ''2-4'' =
     h\<lparr>lineNumbers := foldl (\<lambda>acc n. addToSet n acc) (lineNumbers h) (map Num [2..4])\<rparr>"
proof -
  have "hasNumberRange ''2-4''" "split (CHR ''-'') ''2-4'' = [''2'', ''4'']"
       "parseInt ''2'' = Num 2" "parseInt ''4'' = Num 4"
    by code_simp+
  then show ?thesis by (simp add: highlightRule_def)
qed

lemma rule_foo:
  assumes "e ''foo.*'' \<noteq> None"
  shows "highlightRule e h ''/foo.*/'' = h\<lparr>regularExpressions := regularExpressions h @ [''foo.*'']\<rparr>"
proof -
  have "\<not> hasNumberRange ''/foo.*/''" "isSlashDelimited ''/foo.*/''"
       "stripSlashes ''/foo.*/'' = ''foo.*''"
    by code_simp+
  with assms show ?thesis by (simp add: highlightRule_def)
qed

lemma rule_bar:
  \<open>highlightRule e h ''"bar"'' = h\<lparr>plainText := addToSet ''bar'' (plainText h)\<rparr>\<close>
proof -
  have \<open>\<not> hasNumberRange ''"bar"''\<close> \<open>\<not> isSlashDelimited ''"bar"''\<close>
       \<open>hasQuoted (CHR 0x22) ''"bar"''\<close>
       \<open>substring ''"bar"'' 1 (int (length ''"bar"'') - 1) = ''bar''\<close>
    by code_simp+
  then show ?thesis by (simp add: highlightRule_def)
qed

lemma rule_7:
  \<open>highlightRule e h ''7'' = h\<lparr>lineNumbers := addToSet (Num 7) (lineNumbers h)\<rparr>\<close>
proof -
  have \<open>\<not> hasNumberRange ''7''\<close> \<open>\<not> isSlashDelimited ''7''\<close>
       \<open>\<not> hasQuoted (CHR 0x22) ''7''\<close> \<open>\<not> hasQuoted (CHR 0x27) ''7''\<close>
       \<open>\<not> list_ex (\<lambda>c. \<not> isDigit c) ''7''\<close> \<open>list_ex isDigit ''7''\<close>
       \<open>parseInt ''7'' = Num 7\<close>
    by code_simp+
  then show ?thesis by (simp add: highlightRule_def)
qed

lemma parse_spec:
  assumes "e ''foo.*'' \<noteq> None"
  shows \<open>parseHighlightedLines e ''2-4,/foo.*/,"bar",7'' =
     \<lparr>lineNumbers = [Num 2, Num 3, Num 4, Num 7], plainText = [''bar''],
      regularExpressions = [''foo.*'']\<rparr>\<close>
  unfolding parseHighlightedLines_def split_spec
  using assms
  by (simp add: rule_2_4 rule_foo rule_bar rule_7 upto_2_4 addToSet_def emptyHighlights_def)

lemma hl_spec_match:
  \<open>highlightMatch ''hl:2-4,/foo.*/,"bar",7'' = Some (''hl'', ''2-4,/foo.*/,"bar",7'')\<close>
  by code_simp

lemma brace_spec_rejected:
  \<open>highlightMatch ''{2-4,/foo.*/,"bar",7}'' = None\<close>
  \<open>\<not> isBraceShorthand ''{2-4,/foo.*/,"bar",7}''\<close>
  by code_simp+

lemma brace_digits_accepted:
  \<open>highlightMatch ''{2-4,7}'' = None\<close> \<open>isBraceShorthand ''{2-4,7}''\<close>
  \<open>slice ''{2-4,7}'' 1 (- 1) = ''2-4,7''\<close>
  \<open>parseHighlightedLines e ''2-4,7'' =
     \<lparr>lineNumbers = [Num 2, Num 3, Num 4, Num 7], plainText = [], regularExpressions = []\<rparr>\<close>
proof -
  show \<open>highlightMatch ''{2-4,7}'' = None\<close> \<open>isBraceShorthand ''{2-4,7}''\<close>
    \<open>slice ''{2-4,7}'' 1 (- 1) = ''2-4,7''\<close>
    by code_simp+
  have "split (CHR '','') ''2-4,7'' = [''2-4'', ''7'']" by code_simp
  then show \<open>parseHighlightedLines e ''2-4,7'' =
     \<lparr>lineNumbers = [Num 2, Num 3, Num 4, Num 7], plainText = [], regularExpressions = []\<rparr>\<close>
    by (simp add: parseHighlightedLines_def rule_2_4 rule_7 upto_2_4 addToSet_def
          emptyHighlights_def)
qed

text \<open>
  Claim C8, as amended. The rule list \<open>2-4,/foo.*/,"bar",7\<close>, given under the name \<open>hl\<close>,
  yields the line numbers 2, 3, 4 and 7, the plain text \<open>bar\<close> and the one regular
  expression \<open>foo.*\<close> (a pattern the engine accepts). The brace shorthand takes digits,
  hyphens and commas only: \<open>{2-4,7}\<close> yields the line numbers 2, 3, 4 and 7. For every
  two rule lists with the same rules in any order, the sets of line numbers and of plain
  texts are equal, and so are the regular expressions, one for each pattern given.
\<close>

theorem highlight_rules_order_independent:
  assumes "newRegExp ''foo.*'' \<noteq> None"
      and "mset (split (CHR '','') s1) = mset (split (CHR '','') s2)"
  shows \<open>highlights_default
           (addHighlights newRegExp ''hl:2-4,/foo.*/,"bar",7'' cp inAlternativeHighlights) =
           \<lparr>lineNumbers = [Num 2, Num 3, Num 4, Num 7], plainText = [''bar''],
            regularExpressions = [''foo.*'']\<rparr>
         \<and> highlights_default (addHighlights newRegExp ''{2-4,7}'' cp inAlternativeHighlights) =
           \<lparr>lineNumbers = [Num 2, Num 3, Num 4, Num 7], plainText = [],
            regularExpressions = []\<rparr>
         \<and> set (lineNumbers (parseHighlightedLines newRegExp s1))
           = set (lineNumbers (parseHighlightedLines newRegExp s2))
         \<and> set (plainText (parseHighlightedLines newRegExp s1))
           = set (plainText (parseHighlightedLines newRegExp s2))
         \<and> mset (regularExpressions (parseHighlightedLines newRegExp s1))
           = mset (regularExpressions (parseHighlightedLines newRegExp s2))\<close>
  using rules_order_irrelevant [OF assms(2), of newRegExp] parse_spec [of newRegExp] assms(1)
  by (simp add: addHighlights_def hl_spec_match brace_digits_accepted)

theorem highlight_rules_order_independent_witness:
  \<open>anyRegExp ''foo.*'' \<noteq> None
   \<and> mset (split (CHR '','') ''7,2-4'') = mset (split (CHR '','') ''2-4,7'')
   \<and> lineNumbers (parseHighlightedLines anyRegExp ''7,2-4'') = [Num 7, Num 2, Num 3, Num 4]
   \<and> set (lineNumbers (parseHighlightedLines anyRegExp ''7,2-4''))
       = set (lineNumbers (parseHighlightedLines anyRegExp ''2-4,7''))\<close>
proof -
  have e: "anyRegExp ''foo.*'' \<noteq> None" by (simp add: anyRegExp_def)
  have sp: "split (CHR '','') ''7,2-4'' = [''7'', ''2-4'']"
    "split (CHR '','') ''2-4,7'' = [''2-4'', ''7'']"
    by code_simp+
  then have m: "mset (split (CHR '','') ''7,2-4'') = mset (split (CHR '','') ''2-4,7'')"
    by simp
  have l: "lineNumbers (parseHighlightedLines anyRegExp ''7,2-4'') = [Num 7, Num 2, Num 3, Num 4]"
    by (simp add: parseHighlightedLines_def sp rule_2_4 rule_7 upto_2_4 addToSet_def
          emptyHighlights_def)
  from highlight_rules_order_independent [of anyRegExp "''7,2-4''" "''2-4,7''"] e m l
  show ?thesis by simp
qed

text \<open>
  The same rule list between braces is not a brace shorthand, since it holds more than
  digits, hyphens and commas, and it has no name in front: \<open>addHighlights\<close> leaves the
  highlights as they were.
\<close>

theorem brace_highlight_spec_counterexample:
  \<open>highlights_default
     (addHighlights anyRegExp ''{2-4,/foo.*/,"bar",7}'' initialParameters noAlternativeHighlights)
   = \<lparr>lineNumbers = [], plainText = [], regularExpressions = []\<rparr>\<close>
  by (simp add: addHighlights_def brace_spec_rejected initialParameters_def emptyHighlights_def)


section \<open>Titles and links (src/Parsing/CodeblockParsing.ts)\<close>

definition isTitleChar :: "char \<Rightarrow> bool" where
  \<comment> \<open>the class \<^verbatim>\<open>[^\0x1]\<close>: any character but NUL, \<open>x\<close> and \<open>1\<close>\<close>
  "isTitleChar c = (c \<noteq> CHR 0x00 \<and> c \<noteq> CHR ''x'' \<and> c \<noteq> CHR ''1'')"

definition isQuoteMark :: "char \<Rightarrow> bool" where
  "isQuoteMark c = (c = CHR 0x22 \<or> c = CHR 0x27)"

definition titleMatch :: "string \<Rightarrow> string option" where
  \<comment> \<open>group 2 of \<^verbatim>\<open>/(["']?)([^\0x1]+)\1/.exec(s)\<close>. The match starts at the first
      character of the class. If that is a quote, group 1 takes it, and group 2 ends
      before the last later occurrence of the same quote in the run of class characters
      (at least one character in between); failing that, group 1 is empty and group 2 is
      the whole run\<close>
  "titleMatch s =
     (let t = dropWhile (\<lambda>c. \<not> isTitleChar c) s
      in if t = [] then None
         else (let q = hd t;
                   run = takeWhile isTitleChar (tl t);
                   closers = filter (\<lambda>k. run ! k = q) [1..<length run]
               in if isQuoteMark q \<and> closers \<noteq> [] then Some (take (last closers) run)
                  else Some (takeWhile isTitleChar t)))"

definition isWikiChar :: "char \<Rightarrow> bool" where
  \<comment> \<open>the class \<^verbatim>\<open>[^\]|\r\n]\<close>\<close>
  "isWikiChar c = (c \<noteq> CHR '']'' \<and> c \<noteq> CHR ''|'' \<and> c \<noteq> CHR 0x0D \<and> c \<noteq> CHR 0x0A)"

definition wikiAt :: "string \<Rightarrow> (string \<times> string option) option" where
  \<comment> \<open>\<^verbatim>\<open>\[\[([^\]|\r\n]+?)(?:\|([^\]|\r\n]+?))?\]\]\<close> matched at the start of \<open>s\<close>: each
      group is followed by a character outside its class, so it is a whole run\<close>
  "wikiAt s =
     (if \<not> startsWith s ''[['' then None
      else (let g1 = takeWhile isWikiChar (drop 2 s); a = dropWhile isWikiChar (drop 2 s)
            in if g1 = [] then None
               else if startsWith a ''|''
               then (let g2 = takeWhile isWikiChar (drop 1 a); b = dropWhile isWikiChar (drop 1 a)
                     in if g2 \<noteq> [] \<and> startsWith b '']]'' then Some (g1, Some g2) else None)
               else if startsWith a '']]'' then Some (g1, None)
               else None))"

fun refWikiMatch :: "string \<Rightarrow> (string \<times> string option) option" where
  \<comment> \<open>\<open>exec\<close>: the leftmost position where the pattern matches\<close>
  "refWikiMatch [] = None"
| "refWikiMatch (c # s) =
     (case wikiAt (c # s) of Some m \<Rightarrow> Some m | None \<Rightarrow> refWikiMatch s)"

definition mdTail :: "string \<Rightarrow> string option" where
  \<comment> \<open>\<^verbatim>\<open>\]\((.+)\)\<close> at the start of \<open>s\<close>: the greedy group ends before the last \<open>)\<close>
      of the line\<close>
  "mdTail s =
     (if startsWith s ''](''
      then (let run = takeWhile (\<lambda>c. \<not> isLineTerminator c) (drop 2 s);
                closers = filter (\<lambda>k. run ! k = CHR '')'') [1..<length run]
            in if closers = [] then None else Some (take (last closers) run))
      else None)"

fun mdLabel :: "string \<Rightarrow> string \<Rightarrow> (string \<times> string) option" where
  \<comment> \<open>the lazy group \<^verbatim>\<open>(.*?)\<close>: the shortest label after which the rest matches\<close>
  "mdLabel g1 [] = None"
| "mdLabel g1 (c # s) =
     (case mdTail (c # s) of
        Some g2 \<Rightarrow> Some (g1, g2)
      | None \<Rightarrow> if isLineTerminator c then None else mdLabel (g1 @ [c]) s)"

fun refMdMatch :: "string \<Rightarrow> (string \<times> string) option" where
  \<comment> \<open>\<^verbatim>\<open>/\[(.*?)\]\((.+)\)/.exec(s)\<close>\<close>
  "refMdMatch [] = None"
| "refMdMatch (c # s) =
     (case (if c = CHR ''['' then mdLabel [] s else None) of
        Some m \<Rightarrow> Some m
      | None \<Rightarrow> refMdMatch s)"

definition isHttpText :: "string \<Rightarrow> bool" where
  "isHttpText s =
     ((startsWith s ''http://'' \<or> startsWith s ''https://'') \<and> \<not> list_ex isLineTerminator s)"

definition urlMatch :: "string \<Rightarrow> string option" where
  \<comment> \<open>group 2 of \<^verbatim>\<open>/^(["']?)(https?:\/\/.*)\1$/\<close>\<close>
  "urlMatch s =
     (if s \<noteq> [] \<and> isQuoteMark (hd s)
      then (if 2 \<le> length s \<and> last s = hd s \<and> isHttpText (butlast (tl s))
            then Some (butlast (tl s)) else None)
      else if isHttpText s then Some s else None)"

record linkInfo =
  link_title :: string
  link_reference :: string

definition manageLink :: "string \<Rightarrow> linkInfo option" where
  "manageLink parameterString =
     (case refWikiMatch parameterString of
        Some (g1, g2) \<Rightarrow>
          Some \<lparr>link_title = (case g2 of Some l \<Rightarrow> trim l | None \<Rightarrow> trim g1),
                link_reference = trim g1\<rparr>
      | None \<Rightarrow>
          (case refMdMatch parameterString of
             Some (g1, g2) \<Rightarrow> Some \<lparr>link_title = trim g1, link_reference = trim g2\<rparr>
           | None \<Rightarrow>
               (case urlMatch parameterString of
                  Some g2 \<Rightarrow> Some \<lparr>link_title = ''URL'', link_reference = trim g2\<rparr>
                | None \<Rightarrow> None)))"

definition manageTitle :: "string \<Rightarrow> CodeblockParameters \<Rightarrow> CodeblockParameters" where
  "manageTitle parameterString params =
     (let params1 = (case titleMatch (slice_from parameterString 6) of
                       Some g2 \<Rightarrow> params\<lparr>title := trim g2\<rparr>
                     | None \<Rightarrow> params)
      in case manageLink (slice_from parameterString 6) of
           Some linkInfo \<Rightarrow>
             params1\<lparr>title := link_title linkInfo, reference := link_reference linkInfo\<rparr>
         | None \<Rightarrow> params1)"


subsection \<open>The handlers of a token\<close>

definition toLowerCase :: "string \<Rightarrow> string" where
  \<comment> \<open>on the code units below 256: \<open>A\<close> to \<open>Z\<close> and the accented capitals\<close>
  "toLowerCase s =
     map (\<lambda>c. if (65 \<le> (of_char c :: nat) \<and> (of_char c :: nat) \<le> 90)
                  \<or> (192 \<le> (of_char c :: nat) \<and> (of_char c :: nat) \<le> 222
                      \<and> (of_char c :: nat) \<noteq> 215)
               then char_of ((of_char c :: nat) + 32) else c) s"

definition manageReference :: "string \<Rightarrow> CodeblockParameters \<Rightarrow> CodeblockParameters" where
  "manageReference parameterString params =
     (case manageLink (slice_from parameterString
                         (if startsWith parameterString ''ref:'' \<or> startsWith parameterString ''ref=''
                          then 4 else 10)) of
        Some linkInfo \<Rightarrow>
          (let params1 = params\<lparr>reference := link_reference linkInfo\<rparr>
           in if title params1 = [] then params1\<lparr>title := link_title linkInfo\<rparr> else params1)
      | None \<Rightarrow> params)"

definition manageFolding :: "string \<Rightarrow> CodeblockParameters \<Rightarrow> CodeblockParameters" where
  "manageFolding parameterString params =
     (if parameterString = ''fold'' then params\<lparr>fold_enabled := True, fold_placeholder := []\<rparr>
      else (case titleMatch (slice_from parameterString 5) of
              Some g2 \<Rightarrow> params\<lparr>fold_enabled := True, fold_placeholder := trim g2\<rparr>
            | None \<Rightarrow> params))"

definition manageLineNumbering :: "string \<Rightarrow> CodeblockParameters \<Rightarrow> CodeblockParameters" where
  "manageLineNumbering parameterString params =
     (let value = slice_from parameterString 3
      in if value \<noteq> [] \<and> list_all isDigit value
         then params\<lparr>lineNumbers_alwaysEnabled := True, lineNumbers_alwaysDisabled := False,
                      lineNumbers_offset := decimalValue value - 1\<rparr>
         else if toLowerCase value = ''true''
         then params\<lparr>lineNumbers_alwaysEnabled := True, lineNumbers_alwaysDisabled := False,
                      lineNumbers_offset := 0\<rparr>
         else if toLowerCase value = ''false''
         then params\<lparr>lineNumbers_alwaysEnabled := False, lineNumbers_alwaysDisabled := True,
                      lineNumbers_offset := 0\<rparr>
         else params)"

definition manageWrapping :: "string \<Rightarrow> CodeblockParameters \<Rightarrow> CodeblockParameters" where
  "manageWrapping parameterString codeblockParameters =
     (if parameterString = ''wrap''
      then codeblockParameters\<lparr>lineUnwrap_alwaysEnabled := False,
             lineUnwrap_alwaysDisabled := True, lineUnwrap_activeWrap := False\<rparr>
      else if parameterString = ''unwrap''
      then codeblockParameters\<lparr>lineUnwrap_alwaysEnabled := True,
             lineUnwrap_alwaysDisabled := False, lineUnwrap_activeWrap := False\<rparr>
      else (let value = toLowerCase (slice_from parameterString 7)
            in if value = ''inactive''
               then codeblockParameters\<lparr>lineUnwrap_alwaysEnabled := True,
                      lineUnwrap_alwaysDisabled := False, lineUnwrap_activeWrap := True\<rparr>
               else if value = ''true''
               then codeblockParameters\<lparr>lineUnwrap_alwaysEnabled := True,
                      lineUnwrap_alwaysDisabled := False, lineUnwrap_activeWrap := False\<rparr>
               else if value = ''false''
               then codeblockParameters\<lparr>lineUnwrap_alwaysEnabled := False,
                      lineUnwrap_alwaysDisabled := True, lineUnwrap_activeWrap := False\<rparr>
               else codeblockParameters))"

definition hasKey :: "string \<Rightarrow> string \<Rightarrow> bool" where
  \<comment> \<open>\<^verbatim>\<open>/^key[:=]/.test(s)\<close>\<close>
  "hasKey key s = (startsWith s (key @ '':'') \<or> startsWith s (key @ ''=''))"

text \<open>
  \<open>parseCodeblockParameterString\<close> sends each token of the fence line to its handler; the
  patterns \<^verbatim>\<open>/^fold[:=]?/\<close> and \<^verbatim>\<open>/^unwrap[:=]?/\<close> ask for the prefix only.
\<close>

definition parseCodeblockParameterString ::
  "regexEngine \<Rightarrow> string \<Rightarrow> CodeblockParameters \<Rightarrow> (string \<Rightarrow> bool) \<Rightarrow> CodeblockParameters" where
  "parseCodeblockParameterString newRegExp parameterString params inAlternativeHighlights =
     (if parameterString = ''ignore'' then params\<lparr>ignore := True\<rparr>
      else if hasKey ''title'' parameterString then manageTitle parameterString params
      else if hasKey ''ref'' parameterString \<or> hasKey ''reference'' parameterString
      then manageReference parameterString params
      else if startsWith parameterString ''fold'' then manageFolding parameterString params
      else if hasKey ''ln'' parameterString then manageLineNumbering parameterString params
      else if startsWith parameterString ''unwrap'' \<or> parameterString = ''wrap''
      then manageWrapping parameterString params
      else addHighlights newRegExp parameterString params inAlternativeHighlights)"

subsection \<open>Titles\<close>

lemma title_wiki_link_examples:
  \<open>title (manageTitle ''title:[[Note|Label]]'' initialParameters) = ''Label''\<close>
  \<open>reference (manageTitle ''title:[[Note|Label]]'' initialParameters) = ''Note''\<close>
  \<open>title (manageTitle ''title=[[Note]]'' initialParameters) = ''Note''\<close>
  \<open>reference (manageTitle ''title=[[Note]]'' initialParameters) = ''Note''\<close>
  \<open>title (manageTitle ''title:"Hello"'' initialParameters) = ''Hello''\<close>
  by code_simp+

lemma title_of_wiki_link:
  assumes "refWikiMatch (slice_from parameterString 6) = Some (note, label)"
  shows "title (manageTitle parameterString params)
           = (case label of Some l \<Rightarrow> trim l | None \<Rightarrow> trim note)
         \<and> reference (manageTitle parameterString params) = trim note"
  using assms by (simp add: manageTitle_def manageLink_def Let_def split: option.splits)

lemma token_examples:
  \<open>title (parseCodeblockParameterString e ''title:"Example"'' initialParameters alt) = ''"E''\<close>
  \<open>highlights_default
     (parseCodeblockParameterString e ''{2-4,/foo.*/,"bar",7}'' initialParameters alt)
   = emptyHighlights\<close>
proof -
  have k: \<open>''title:"Example"'' \<noteq> ''ignore''\<close> \<open>hasKey ''title'' ''title:"Example"''\<close>
    by code_simp+
  have t: \<open>title (manageTitle ''title:"Example"'' initialParameters) = ''"E''\<close>
    by code_simp
  show \<open>title (parseCodeblockParameterString e ''title:"Example"'' initialParameters alt) = ''"E''\<close>
    by (simp only: parseCodeblockParameterString_def k t if_True if_False)
  have n: \<open>''{2-4,/foo.*/,"bar",7}'' \<noteq> ''ignore''\<close>
    \<open>\<not> hasKey ''title'' ''{2-4,/foo.*/,"bar",7}''\<close>
    \<open>\<not> hasKey ''ref'' ''{2-4,/foo.*/,"bar",7}''\<close>
    \<open>\<not> hasKey ''reference'' ''{2-4,/foo.*/,"bar",7}''\<close>
    \<open>\<not> startsWith ''{2-4,/foo.*/,"bar",7}'' ''fold''\<close>
    \<open>\<not> hasKey ''ln'' ''{2-4,/foo.*/,"bar",7}''\<close>
    \<open>\<not> startsWith ''{2-4,/foo.*/,"bar",7}'' ''unwrap''\<close>
    \<open>''{2-4,/foo.*/,"bar",7}'' \<noteq> ''wrap''\<close>
    by code_simp+
  show \<open>highlights_default
     (parseCodeblockParameterString e ''{2-4,/foo.*/,"bar",7}'' initialParameters alt)
   = emptyHighlights\<close>
    by (simp add: parseCodeblockParameterString_def n addHighlights_def brace_spec_rejected
          initialParameters_def)
qed

text \<open>
  Claim C6. The claim gives the title \<open>Example\<close> to the token \<open>title:"Example"\<close>. The
  code gives it the title \<open>"E\<close>: the class \<^verbatim>\<open>[^\0x1]\<close> excludes \<open>x\<close>, so the quoted match
  fails at \<open>x\<close> and the unquoted one keeps the opening quote and stops there. The value
  is no link, so the title stays. (A wiki link is read as the claim says.)
\<close>

theorem title_example_is_truncated:
  \<open>title (manageTitle ''title:"Example"'' initialParameters) = ''"E''
   \<and> reference (manageTitle ''title:"Example"'' initialParameters) = []\<close>
  by code_simp


section \<open>Line limits (src/Parsing/ReferenceParsing.ts)\<close>

definition fromRat :: "rat \<Rightarrow> jsnum" where
  "fromRat q = (if of_int \<lfloor>q\<rfloor> = q then Num \<lfloor>q\<rfloor> else Frac q)"

fun finiteValue :: "jsnum \<Rightarrow> rat option" where
  "finiteValue (Num k) = Some (of_int k)"
| "finiteValue (Frac q) = Some q"
| "finiteValue NaN = None"
| "finiteValue PosInfinity = None"
| "finiteValue NegInfinity = None"

definition jsAdd :: "jsnum \<Rightarrow> jsnum \<Rightarrow> jsnum" where
  \<comment> \<open>\<open>a + b\<close> on numbers\<close>
  "jsAdd a b =
     (case (finiteValue a, finiteValue b) of
        (Some x, Some y) \<Rightarrow> fromRat (x + y)
      | _ \<Rightarrow>
          if a = NaN \<or> b = NaN then NaN
          else if a = PosInfinity \<and> b = NegInfinity then NaN
          else if a = NegInfinity \<and> b = PosInfinity then NaN
          else if a = PosInfinity \<or> b = PosInfinity then PosInfinity
          else NegInfinity)"

definition jsGreater :: "jsnum \<Rightarrow> jsnum \<Rightarrow> bool" where
  \<comment> \<open>\<open>a > b\<close> on numbers: false when either is \<open>NaN\<close>\<close>
  "jsGreater a b =
     (case (finiteValue a, finiteValue b) of
        (Some x, Some y) \<Rightarrow> x > y
      | (Some x, None) \<Rightarrow> b = NegInfinity
      | (None, Some y) \<Rightarrow> a = PosInfinity
      | (None, None) \<Rightarrow> a = PosInfinity \<and> b = NegInfinity)"

definition truncateRat :: "rat \<Rightarrow> int" where
  \<comment> \<open>rounding towards zero\<close>
  "truncateRat q = (if q < 0 then \<lceil>q\<rceil> else \<lfloor>q\<rfloor>)"

definition sliceIndex :: "jsnum \<Rightarrow> nat \<Rightarrow> nat" where
  \<comment> \<open>how \<open>slice\<close> reads a number as a bound: \<open>NaN\<close> is \<open>0\<close>, a fraction is truncated,
      and the result is clamped as \<open>rel_index\<close> does\<close>
  "sliceIndex a n =
     (case a of
        Num k \<Rightarrow> rel_index k n
      | Frac q \<Rightarrow> rel_index (truncateRat q) n
      | NaN \<Rightarrow> 0
      | PosInfinity \<Rightarrow> n
      | NegInfinity \<Rightarrow> 0)"

definition sliceNum :: "'a list \<Rightarrow> jsnum \<Rightarrow> jsnum \<Rightarrow> 'a list" where
  \<comment> \<open>\<open>xs.slice(a, b)\<close> for bounds that are numbers\<close>
  "sliceNum xs a b =
     (let s = sliceIndex a (length xs); e = sliceIndex b (length xs)
      in take (e - s) (drop s xs))"

definition radixValue :: "int \<Rightarrow> string \<Rightarrow> int" where
  "radixValue base ds = foldl (\<lambda>n c. base * n + hexDigitValue c) 0 ds"

definition radixLiteral :: "string \<Rightarrow> string \<Rightarrow> int \<Rightarrow> string \<Rightarrow> int option" where
  \<comment> \<open>a literal \<open>0x...\<close>, \<open>0o...\<close> or \<open>0b...\<close>: the prefix and at least one digit, no sign\<close>
  "radixLiteral letters digits base t =
     (if length t > 2 \<and> t ! 0 = CHR ''0'' \<and> t ! 1 \<in> set letters
         \<and> list_all (\<lambda>c. c \<in> set digits) (drop 2 t)
      then Some (radixValue base (drop 2 t)) else None)"

definition decimalLiteral :: "string \<Rightarrow> rat option" where
  \<comment> \<open>an unsigned decimal literal: digits, a fraction and an exponent, with a digit before
      or after the point\<close>
  "decimalLiteral u =
     (let ip = takeWhile isDigit u;
          r1 = dropWhile isDigit u;
          dot = startsWith r1 ''.'';
          fp = (if dot then takeWhile isDigit (drop 1 r1) else []);
          r2 = (if dot then dropWhile isDigit (drop 1 r1) else r1);
          r3 = drop 1 r2;
          negative = startsWith r3 ''-'';
          ed = (if startsWith r3 ''-'' \<or> startsWith r3 ''+'' then drop 1 r3 else r3);
          mantissa = of_int (decimalValue (ip @ fp)) / 10 ^ length fp
      in if ip = [] \<and> fp = [] then None
         else if r2 = [] then Some mantissa
         else if (startsWith r2 ''e'' \<or> startsWith r2 ''E'') \<and> ed \<noteq> [] \<and> list_all isDigit ed
         then Some (if negative then mantissa / 10 ^ nat (decimalValue ed)
                    else mantissa * 10 ^ nat (decimalValue ed))
         else None)"

definition toNumber :: "string \<Rightarrow> jsnum" where
  \<comment> \<open>\<open>Number(s)\<close> on a string: white space is trimmed and the empty string is \<open>0\<close>; then
      a literal with a radix prefix, a signed \<open>Infinity\<close> or a signed decimal literal;
      anything else is \<open>NaN\<close>\<close>
  "toNumber s =
     (let t = trim s;
          negative = startsWith t ''-'';
          u = (if startsWith t ''-'' \<or> startsWith t ''+'' then drop 1 t else t)
      in if t = [] then Num 0
         else case radixLiteral ''xX'' ''0123456789abcdefABCDEF'' 16 t of Some v \<Rightarrow> Num v | None \<Rightarrow>
         (case radixLiteral ''oO'' ''01234567'' 8 t of Some v \<Rightarrow> Num v | None \<Rightarrow>
         (case radixLiteral ''bB'' ''01'' 2 t of Some v \<Rightarrow> Num v | None \<Rightarrow>
         (if u = ''Infinity'' then (if negative then NegInfinity else PosInfinity)
          else case decimalLiteral u of
                 None \<Rightarrow> NaN
               | Some q \<Rightarrow> fromRat (if negative then - q else q)))))"

abbreviation LF :: char where "LF \<equiv> CHR 0x0A"

record LineLimits =
  codeSection :: string
  startLine :: jsnum

text \<open>
  \<open>startIndexOf\<close> and \<open>endIndexOf\<close> are the two chains of \<open>if\<close> that open
  \<open>getLineLimits\<close>. A number is tested first; any other value is used as a string, and a
  \<open>RegExp\<close> object has no method \<open>startsWith\<close>, so the call throws a \<open>TypeError\<close>.
  \<open>new RegExp\<close> may throw a \<open>SyntaxError\<close>.
\<close>

definition startIndexOf :: "regexEngine \<Rightarrow> string list \<Rightarrow> LineIdentifier \<Rightarrow> jserror + jsnum" where
  "startIndexOf newRegExp lines startAnchor =
     (case startAnchor of
        LNull \<Rightarrow> Inr (Num 0)
      | LNumber n \<Rightarrow> Inr (jsAdd n (Num (- 1)))
      | LRegExp r \<Rightarrow> Inl (TypeError ''params.start.startsWith is not a function'')
      | LString s \<Rightarrow>
          (if startsWith s ''/'' \<and> endsWith s ''/''
           then (case newRegExp (stripSlashes s) of
                   None \<Rightarrow> Inl (SyntaxError ''Invalid regular expression'')
                 | Some test \<Rightarrow> Inr (Num (findIndex test lines)))
           else Inr (Num (findIndex (\<lambda>line. indexOf_from line s 0 > - 1) lines))))"

definition endIndexOf ::
  "regexEngine \<Rightarrow> string list \<Rightarrow> jsnum \<Rightarrow> LineIdentifier \<Rightarrow> jserror + jsnum" where
  "endIndexOf newRegExp lines startIndex endAnchor =
     (case endAnchor of
        LNull \<Rightarrow> Inr (Num (int (length lines) - 1))
      | LNumber n \<Rightarrow> Inr (jsAdd n (Num (- 1)))
      | LRegExp r \<Rightarrow> Inl (TypeError ''params.end.startsWith is not a function'')
      | LString s \<Rightarrow>
          (if startsWith s ''/'' \<and> endsWith s ''/''
           then (case newRegExp (stripSlashes s) of
                   None \<Rightarrow> Inl (SyntaxError ''Invalid regular expression'')
                 | Some test \<Rightarrow> Inr (Num (findIndex test lines)))
           else if startsWith s ''+''
           then Inr (jsAdd startIndex (toNumber (slice_from s 1)))
           else Inr (Num (findIndex (\<lambda>line. indexOf_from line s 0 > - 1) lines))))"

definition getLineLimits :: "regexEngine \<Rightarrow> string \<Rightarrow> RefParams \<Rightarrow> jserror + LineLimits" where
  "getLineLimits newRegExp codeContent params =
     (let lines = split LF codeContent
      in case startIndexOf newRegExp lines (rp_start params) of
           Inl e \<Rightarrow> Inl e
         | Inr startIndex \<Rightarrow>
             (case endIndexOf newRegExp lines startIndex (rp_end params) of
                Inl e \<Rightarrow> Inl e
              | Inr endIndex \<Rightarrow>
                  if jsGreater startIndex endIndex
                  then Inl (Error ''Specified Start line is after the specified End line'')
                  else if startIndex = Num (- 1)
                  then Inl (Error ''Start line could not be found'')
                  else if endIndex = Num (- 1)
                  then Inl (Error ''End line could not be found'')
                  else Inr \<lparr>codeSection =
                              join [LF] (sliceNum lines startIndex (jsAdd endIndex (Num 1))),
                            startLine = jsAdd startIndex (Num 1)\<rparr>))"

datatype yamlScalar = YUndefined | YNumber jsnum | YString string

definition getLineIdentifier :: "regexEngine \<Rightarrow> yamlScalar \<Rightarrow> jserror + LineIdentifier" where
  "getLineIdentifier newRegExp lineIdentifier =
     (case lineIdentifier of
        YUndefined \<Rightarrow> Inr LNull
      | YNumber n \<Rightarrow> Inr (LNumber n)
      | YString s \<Rightarrow>
          (if isSlashDelimited s
           then (case newRegExp (stripSlashes s) of
                   None \<Rightarrow> Inl (Error ''Invalid Regular Expression'')
                 | Some test \<Rightarrow> Inr (LRegExp (stripSlashes s)))
           else if hasQuoted (CHR 0x22) s then Inr (LString (substring s 1 (int (length s) - 1)))
           else if hasQuoted (CHR 0x27) s then Inr (LString (substring s 1 (int (length s) - 1)))
           else if list_ex (\<lambda>c. \<not> isDigit c) s then Inr (LString s)
           else if list_ex isDigit s then Inr (LNumber (parseInt s))
           else Inr LNull))"

definition defEngine :: regexEngine where
  \<comment> \<open>an engine for the examples, knowing the one pattern \<^verbatim>\<open>^def \<close>\<close>
  "defEngine pattern =
     (if pattern = ''^def '' then Some (\<lambda>line. startsWith line ''def '') else None)"

definition sampleParams :: RefParams where
  "sampleParams =
     \<lparr>rp_path = ''lib.py'', rp_storePath = ''lib.py'', rp_language = ''py'',
      rp_start = LNull, rp_end = LNull, rp_external = None\<rparr>"

definition sampleCode :: string where
  "sampleCode = ''import os'' @ [LF] @ ''def f():'' @ [LF] @ ''  return 1''"

lemma fromRat_of_int [simp]: "fromRat (of_int k) = Num k"
  by (simp add: fromRat_def)

lemma jsAdd_Num [simp]: "jsAdd (Num x) (Num y) = Num (x + y)"
proof -
  have "fromRat (of_int x + of_int y) = fromRat (of_int (x + y))" by simp
  then show ?thesis by (simp add: jsAdd_def del: of_int_add)
qed

lemma jsGreater_Num [simp]: "jsGreater (Num x) (Num y) = (x > y)"
  by (simp add: jsGreater_def)

lemma sliceNum_Num [simp]: "sliceNum xs (Num a) (Num b) = slice xs a b"
  by (simp add: sliceNum_def slice_def sliceIndex_def)

lemma toNumber_examples:
  "toNumber ''10'' = Num 10"
  "toNumber ''-1e1'' = Num (- 10)"
  "toNumber ''0x2'' = Num 2"
  "toNumber ''1.5'' = Frac (3 / 2)"
  "toNumber ''ten'' = NaN"
  by code_simp+

lemma takeWhile_findIndex:
  "list_ex P xs \<Longrightarrow> findIndex P xs = int (length (takeWhile (\<lambda>x. \<not> P x) xs))"
  by (simp add: findIndex_def)

lemma slice_window:
  assumes "i \<le> length xs"
  shows "slice xs (int i) (int i + 11) = take 11 (drop i xs)"
proof -
  have n: "nat (int i + 11) = i + 11" by simp
  show ?thesis
  proof (cases "i + 11 \<le> length xs")
    case True
    with assms show ?thesis by (simp add: slice_def rel_index_def Let_def n)
  next
    case False
    with assms show ?thesis by (simp add: slice_def rel_index_def Let_def n)
  qed
qed

lemma regex_start_plus_ten:
  assumes "newRegExp ''^def '' = Some test"
      and "list_ex test (split LF codeContent)"
  shows "getLineLimits newRegExp codeContent
           (params\<lparr>rp_start := LString ''/^def /'', rp_end := LString ''+10''\<rparr>) =
         Inr \<lparr>codeSection =
                join [LF] (take 11 (drop (length (takeWhile (\<lambda>l. \<not> test l) (split LF codeContent)))
                                      (split LF codeContent))),
              startLine = Num (int (length (takeWhile (\<lambda>l. \<not> test l) (split LF codeContent))) + 1)\<rparr>"
proof -
  define lines where "lines = split LF codeContent"
  define i where "i = length (takeWhile (\<lambda>l. \<not> test l) lines)"
  have s: "startsWith ''/^def /'' ''/''" "endsWith ''/^def /'' ''/''"
    "stripSlashes ''/^def /'' = ''^def ''"
    "\<not> startsWith ''+10'' ''/''" "startsWith ''+10'' ''+''"
    "toNumber (slice_from ''+10'' 1) = Num 10"
    by code_simp+
  have fi: "findIndex test lines = int i"
    using assms(2) by (simp add: takeWhile_findIndex lines_def i_def)
  have st: "startIndexOf newRegExp lines (LString ''/^def /'') = Inr (Num (int i))"
    by (simp add: startIndexOf_def s assms(1) fi)
  have en: "endIndexOf newRegExp lines (Num (int i)) (LString ''+10'') = Inr (Num (int i + 10))"
    by (simp add: endIndexOf_def s)
  have "i \<le> length lines" by (simp add: i_def length_takeWhile_le)
  then have sl: "slice lines (int i) (int i + 11) = take 11 (drop i lines)"
    by (rule slice_window)
  have sl': "slice lines (int i) (11 + int i) = take 11 (drop i lines)"
    using sl by (simp add: add.commute)
  show ?thesis
    unfolding getLineLimits_def lines_def [symmetric] i_def [symmetric]
    by (simp add: Let_def st en sl')
qed

lemma start_after_end:
  assumes "startIndexOf newRegExp (split LF codeContent) (rp_start params) = Inr s"
      and "endIndexOf newRegExp (split LF codeContent) s (rp_end params) = Inr e"
      and "jsGreater s e"
  shows "getLineLimits newRegExp codeContent params =
           Inl (Error ''Specified Start line is after the specified End line'')"
  using assms by (simp add: getLineLimits_def Let_def)


lemma relative_end_examples:
  "getLineLimits anyRegExp sampleCode (sampleParams\<lparr>rp_end := LString ''+-1e1''\<rparr>) =
     Inl (Error ''Specified Start line is after the specified End line'')"
  "getLineLimits anyRegExp sampleCode (sampleParams\<lparr>rp_end := LString ''+0x1''\<rparr>) =
     Inr \<lparr>codeSection = ''import os'' @ [LF] @ ''def f():'', startLine = Num 1\<rparr>"
  "getLineLimits anyRegExp sampleCode (sampleParams\<lparr>rp_end := LString ''+1.5''\<rparr>) =
     Inr \<lparr>codeSection = ''import os'' @ [LF] @ ''def f():'', startLine = Num 1\<rparr>"
  by code_simp+




lemma regexp_object_start_throws:
  "getLineLimits newRegExp codeContent (params\<lparr>rp_start := LRegExp r\<rparr>) =
     Inl (TypeError ''params.start.startsWith is not a function'')"
  by (simp add: getLineLimits_def startIndexOf_def Let_def)

lemma slash_anchor_is_regexp_object:
  assumes "isSlashDelimited s" and "newRegExp (stripSlashes s) = Some test"
  shows "getLineIdentifier newRegExp (YString s) = Inr (LRegExp (stripSlashes s))"
  using assms by (simp add: getLineIdentifier_def)

lemma quoted_anchor_is_text:
  \<open>getLineIdentifier newRegExp (YString ''"/^def /"'') = Inr (LString ''/^def /'')\<close>
proof -
  have \<open>\<not> isSlashDelimited ''"/^def /"''\<close> \<open>hasQuoted (CHR 0x22) ''"/^def /"''\<close>
    \<open>substring ''"/^def /"'' 1 (int (length ''"/^def /"'') - 1) = ''/^def /''\<close>
    by code_simp+
  then show ?thesis by (simp add: getLineIdentifier_def)
qed

lemma sampleCode_lines:
  "split LF sampleCode = [''import os'', ''def f():'', ''  return 1'']"
  by code_simp

text \<open>
  Handed the text \<open>/^def /\<close> itself, which \<open>getLineIdentifier\<close> gives only for an
  anchor written inside quotes (lemma \<open>quoted_anchor_is_text\<close>), \<open>getLineLimits\<close>
  compiles the pattern and returns the lines from the first matching line through the
  tenth line after it (or the last line of the content), with \<open>startLine\<close> the 1-based
  index of that line. And for every content and parameters, when the start index is
  greater than the end index, it throws the error
  \<open>Specified Start line is after the specified End line\<close>.
\<close>

lemma text_anchor_start_relative_end:
  assumes "newRegExp ''^def '' = Some test"
  shows "(list_ex test (split LF codeContent) \<longrightarrow>
          getLineLimits newRegExp codeContent
            (params\<lparr>rp_start := LString ''/^def /'', rp_end := LString ''+10''\<rparr>) =
          Inr \<lparr>codeSection =
                 join [LF]
                   (take 11 (drop (length (takeWhile (\<lambda>l. \<not> test l) (split LF codeContent)))
                               (split LF codeContent))),
               startLine =
                 Num (int (length (takeWhile (\<lambda>l. \<not> test l) (split LF codeContent))) + 1)\<rparr>)
         \<and> (startIndexOf newRegExp (split LF content2) (rp_start params2) = Inr s
            \<and> endIndexOf newRegExp (split LF content2) s (rp_end params2) = Inr e
            \<and> jsGreater s e \<longrightarrow>
            getLineLimits newRegExp content2 params2 =
              Inl (Error ''Specified Start line is after the specified End line''))"
  using regex_start_plus_ten [of newRegExp test codeContent params] assms
    start_after_end [of newRegExp content2 params2 s e]
  by blast

lemma text_anchor_examples:
  "getLineLimits defEngine sampleCode
       (sampleParams\<lparr>rp_start := LString ''/^def /'', rp_end := LString ''+10''\<rparr>) =
     Inr \<lparr>codeSection = ''def f():'' @ [LF] @ ''  return 1'', startLine = Num 2\<rparr>"
  "getLineLimits defEngine sampleCode
       (sampleParams\<lparr>rp_start := LNumber (Num 3), rp_end := LNumber (Num 1)\<rparr>) =
     Inl (Error ''Specified Start line is after the specified End line'')"
proof -
  let ?test = "\<lambda>line. startsWith line ''def ''"
  let ?p2 = "sampleParams\<lparr>rp_start := LNumber (Num 3), rp_end := LNumber (Num 1)\<rparr>"
  have e: "defEngine ''^def '' = Some ?test" by (simp add: defEngine_def)
  note l = sampleCode_lines
  have m: "list_ex ?test (split LF sampleCode)"
    "takeWhile (\<lambda>l. \<not> ?test l) (split LF sampleCode) = [''import os'']"
    unfolding l by code_simp+
  have h: "startIndexOf defEngine (split LF sampleCode) (rp_start ?p2) = Inr (Num 2)"
    "endIndexOf defEngine (split LF sampleCode) (Num 2) (rp_end ?p2) = Inr (Num 0)"
    "jsGreater (Num 2) (Num 0)"
    by (simp_all add: startIndexOf_def endIndexOf_def)
  note t = text_anchor_start_relative_end
         [of defEngine ?test sampleCode sampleParams sampleCode ?p2 "Num 2" "Num 0"]
  from t e m(1) have
    "getLineLimits defEngine sampleCode
       (sampleParams\<lparr>rp_start := LString ''/^def /'', rp_end := LString ''+10''\<rparr>) =
     Inr \<lparr>codeSection =
            join [LF]
              (take 11 (drop (length (takeWhile (\<lambda>l. \<not> ?test l) (split LF sampleCode)))
                          (split LF sampleCode))),
          startLine =
            Num (int (length (takeWhile (\<lambda>l. \<not> ?test l) (split LF sampleCode))) + 1)\<rparr>"
    by blast
  then show "getLineLimits defEngine sampleCode
       (sampleParams\<lparr>rp_start := LString ''/^def /'', rp_end := LString ''+10''\<rparr>) =
     Inr \<lparr>codeSection = ''def f():'' @ [LF] @ ''  return 1'', startLine = Num 2\<rparr>"
    unfolding m(2) unfolding l by simp
  from t e h show "getLineLimits defEngine sampleCode ?p2 =
     Inl (Error ''Specified Start line is after the specified End line'')"
    by blast
qed

text \<open>
  Claim C3. The claim has \<open>getLineLimits\<close> return, for the start \<open>/^def /\<close> and the end
  \<open>+10\<close>, the section from the first line matching the pattern through the tenth line
  after it. The code throws instead. \<open>getLineIdentifier\<close> turns the anchor \<open>/^def /\<close>
  into a \<open>RegExp\<close> object and leaves \<open>+10\<close> a text; \<open>getLineLimits\<close> then uses the start
  as a string, and the call of \<open>startsWith\<close> on the object throws a \<open>TypeError\<close>, on the
  sample content as on every other (lemma \<open>regexp_object_start_throws\<close>). The rest of
  the claim holds: the section is the one the claim describes when the start is the
  text \<open>/^def /\<close>, and a start index after the end index throws the range error
  (lemma \<open>text_anchor_start_relative_end\<close>).
\<close>

theorem regex_anchor_start_throws:
  "getLineIdentifier defEngine (YString ''/^def /'') = Inr (LRegExp ''^def '')
   \<and> getLineIdentifier defEngine (YString ''+10'') = Inr (LString ''+10'')
   \<and> getLineLimits defEngine sampleCode
        (sampleParams\<lparr>rp_start := LRegExp ''^def '', rp_end := LString ''+10''\<rparr>) =
      Inl (TypeError ''params.start.startsWith is not a function'')"
proof -
  have "getLineIdentifier defEngine (YString ''/^def /'') = Inr (LRegExp ''^def '')"
    "getLineIdentifier defEngine (YString ''+10'') = Inr (LString ''+10'')"
    by code_simp+
  moreover have "getLineLimits defEngine sampleCode
        (sampleParams\<lparr>rp_start := LRegExp ''^def '', rp_end := LString ''+10''\<rparr>) =
      Inl (TypeError ''params.start.startsWith is not a function'')"
    by (simp add: getLineLimits_def startIndexOf_def Let_def)
  ultimately show ?thesis by simp
qed






section \<open>Reference parameters (src/Parsing/ReferenceParsing.ts)\<close>

record URL =
  protocol :: string
  hostname :: string
  pathname :: string
  search :: string

type_synonym urlParser = "string \<Rightarrow> string \<Rightarrow> (string \<times> string \<times> string) option"

definition isAsciiAlpha :: "char \<Rightarrow> bool" where
  "isAsciiAlpha c = (c \<in> set ''abcdefghijklmnopqrstuvwxyzABCDEFGHIJKLMNOPQRSTUVWXYZ'')"

definition isSchemeChar :: "char \<Rightarrow> bool" where
  "isSchemeChar c = (isAsciiAlpha c \<or> isDigit c \<or> c \<in> set ''+-.'')"

definition toLowerChar :: "char \<Rightarrow> char" where
  "toLowerChar c =
     (if c \<in> set ''ABCDEFGHIJKLMNOPQRSTUVWXYZ'' then char_of (of_char c + (32::nat)) else c)"

definition isC0OrSpace :: "char \<Rightarrow> bool" where
  "isC0OrSpace c = (of_char c \<le> (32::nat))"

definition urlScheme :: "string \<Rightarrow> (string \<times> string) option" where
  \<comment> \<open>the scheme and the rest of the input, as the URL parser reads them without a base:
      leading and trailing C0 controls and spaces are stripped, tabs and newlines removed;
      the scheme starts with a letter and runs over letters, digits, \<open>+\<close>, \<open>-\<close> and \<open>.\<close>
      up to a colon; with anything else the parser fails\<close>
  "urlScheme input =
     (let t = filter (\<lambda>c. c \<notin> set [CHR 0x09, CHR 0x0A, CHR 0x0D])
                (rev (dropWhile isC0OrSpace (rev (dropWhile isC0OrSpace input))));
          rest = dropWhile isSchemeChar t
      in if t \<noteq> [] \<and> isAsciiAlpha (hd t) \<and> rest \<noteq> [] \<and> hd rest = CHR '':''
         then Some (map toLowerChar (takeWhile isSchemeChar t), tl rest)
         else None)"

definition newURL :: "urlParser \<Rightarrow> string \<Rightarrow> jserror + URL" where
  \<comment> \<open>\<^verbatim>\<open>new URL(input)\<close>: it throws a \<open>TypeError\<close> when the input has no scheme; the
      parsing of what follows the scheme is the platform's (\<open>afterScheme\<close> gives the
      host name, the path name and the search, or fails)\<close>
  "newURL afterScheme input =
     (case urlScheme input of
        None \<Rightarrow> Inl (TypeError ''Invalid URL'')
      | Some (scheme, rest) \<Rightarrow>
          (case afterScheme scheme rest of
             None \<Rightarrow> Inl (TypeError ''Invalid URL'')
           | Some (h, p, q) \<Rightarrow>
               Inr \<lparr>protocol = scheme @ '':'', hostname = h, pathname = p, search = q\<rparr>))"

text \<open>
  \<open>parseYaml\<close> is the platform's: it throws, or gives \<open>null\<close>, a text, an object with the
  keys of \<open>ParsedParams\<close>, or some other value. The other collaborators of
  \<open>parseRefParams\<close> are the platform's as well: the URL parser, the link index
  (\<open>getFirstLinkpathDest\<close>), \<open>normalizePath\<close>, \<open>extname\<close>, the regular expression
  engine, and \<open>refContentPath\<close> of the plugin class (src/main.ts).
\<close>

record ParsedParams =
  pp_filePath :: "string option"
  pp_file :: "string option"
  pp_path :: "string option"
  pp_link :: "string option"
  pp_language :: "string option"
  pp_lang :: "string option"
  pp_start :: yamlScalar
  pp_end :: yamlScalar
  pp_headers :: "(string \<rightharpoonup> string) option"

datatype yaml = YNull | YText string | YObject ParsedParams | YOther

record platform =
  parseYaml :: "string \<Rightarrow> jserror + yaml"
  urlAfterScheme :: urlParser
  refContentPath :: "string \<Rightarrow> string"
  getFirstLinkpathDest :: "string \<Rightarrow> string \<Rightarrow> string option"
  normalizePath :: "string \<Rightarrow> string"
  extname :: "string \<Rightarrow> string"
  compileRegExp :: regexEngine

definition colonSpace :: "string \<Rightarrow> string" where
  \<comment> \<open>\<^verbatim>\<open>source.replace(/^([^:]+):(.+)\n/, "$1: $2\n")\<close>\<close>
  "colonSpace source =
     (let key = takeWhile (\<lambda>c. c \<noteq> CHR '':'') source;
          r = dropWhile (\<lambda>c. c \<noteq> CHR '':'') source;
          v = takeWhile (\<lambda>c. \<not> isLineTerminator c) (drop 1 r);
          t = dropWhile (\<lambda>c. \<not> isLineTerminator c) (drop 1 r)
      in if key \<noteq> [] \<and> r \<noteq> [] \<and> v \<noteq> [] \<and> startsWith t [LF]
         then key @ '': '' @ v @ t
         else source)"

fun closeWikiLink :: "string \<Rightarrow> nat option" where
  \<comment> \<open>the lazy \<^verbatim>\<open>(.*?)\]\](?!")\<close> after an opening \<open>[[\<close>: the length of the shortest
      text, free of line terminators, that is followed by \<open>]]\<close> and no quote\<close>
  "closeWikiLink [] = None"
| "closeWikiLink (c # t) =
     (if startsWith (c # t) '']]'' \<and> \<not> startsWith (drop 1 t) [CHR 0x22] then Some 0
      else if isLineTerminator c then None
      else map_option Suc (closeWikiLink t))"

fun quoteWikiLinkFrom :: "char option \<Rightarrow> string \<Rightarrow> string" where
  \<comment> \<open>\<open>prev\<close> is the character before the current position, for the lookbehind\<close>
  "quoteWikiLinkFrom prev [] = []"
| "quoteWikiLinkFrom prev (c # s) =
     (case (if startsWith (c # s) ''[['' \<and> prev \<noteq> Some (CHR 0x22)
            then closeWikiLink (drop 1 s) else None) of
        Some j \<Rightarrow>
          [CHR 0x22] @ ''[['' @ take j (drop 1 s) @ '']]'' @ [CHR 0x22] @ drop (j + 2) (drop 1 s)
      | None \<Rightarrow> c # quoteWikiLinkFrom (Some c) s)"

definition quoteWikiLink :: "string \<Rightarrow> string" where
  \<comment> \<open>\<^verbatim>\<open>source.replace(/(?<!")\[\[(.*?)\]\](?!")/, '"[[$1]]"')\<close>\<close>
  "quoteWikiLink source = quoteWikiLinkFrom None source"

fun replaceFirst :: "char \<Rightarrow> char \<Rightarrow> string \<Rightarrow> string" where
  \<comment> \<open>\<open>s.replace(a, b)\<close> with a string pattern: the first occurrence only\<close>
  "replaceFirst a b [] = []"
| "replaceFirst a b (c # s) = (if c = a then b # s else c # replaceFirst a b s)"

function climb :: "string list \<Rightarrow> string \<Rightarrow> jserror + (string list \<times> string)" where
  \<comment> \<open>the \<open>while\<close> loop of \<open>getRelativePath\<close>: one directory is popped for each leading \<open>../\<close>\<close>
  \<open>climb vaultDirs path =
     (if startsWith path ''../''
      then (if vaultDirs = []
            then Inl (Error ''Path references outside vault, too many "../"s used'')
            else climb (butlast vaultDirs) (drop 3 path))
      else Inr (vaultDirs, path))\<close>
  by pat_completeness auto
termination
proof (relation "measure (\<lambda>(d, p). length p)", goal_cases)
  case 1
  show ?case by simp
next
  case (2 vaultDirs path)
  then have "path \<noteq> []" by (auto simp: startsWith_def)
  then show ?case by simp
qed

declare climb.simps [simp del]

definition getRelativePath :: "platform \<Rightarrow> string \<Rightarrow> string \<Rightarrow> jserror + string" where
  "getRelativePath pf path sourcePath =
     (let path1 = (if startsWith path ''./'' then drop 2 path else path);
          vaultDirs = butlast (split (CHR ''/'') sourcePath)
      in case climb vaultDirs path1 of
           Inl e \<Rightarrow> Inl e
         | Inr (dirs, path2) \<Rightarrow> Inr (normalizePath pf (join ''/'' (dirs @ [path2]))))"

definition isReservedPathChar :: "char \<Rightarrow> bool" where
  \<comment> \<open>the characters excluded by \<^verbatim>\<open>/^[^<:"/\\>?|*]/\<close>\<close>
  "isReservedPathChar c = (c \<in> set [CHR ''<'', CHR '':'', CHR 0x22, CHR ''/'', CHR 0x5C, CHR ''>'', CHR ''?'', CHR ''|'', CHR ''*''])"

text \<open>
  \<open>sourcePath\<close> is a string, so the test \<^verbatim>\<open>!sourcePath && sourcePath != ""\<close> of
  \<open>resolveLocalPath\<close> is false and its \<open>throw\<close> is not a branch of the model.
\<close>

definition resolveLocalPath :: "platform \<Rightarrow> string \<Rightarrow> string \<Rightarrow> jserror + string" where
  \<open>resolveLocalPath pf path sourcePath =
     (let path1 = trim path
      in if startsWith path1 ''[['' \<and> endsWith path1 '']]''
         then Inr (case getFirstLinkpathDest pf (slice path1 2 (- 2)) sourcePath of
                     Some dest \<Rightarrow> dest
                   | None \<Rightarrow> path1)
         else (let path2 = replaceFirst (CHR 0x5C) (CHR ''/'') path1
               in if startsWith path2 ''@/'' then Inr (drop 2 path2)
                  else if startsWith path2 ''./''
                          \<or> (path2 \<noteq> [] \<and> \<not> isReservedPathChar (hd path2))
                  then getRelativePath pf path2 (trim sourcePath)
                  else if startsWith path2 ''/''
                  then Inl (Error (''Path should not start with "/", use "@/" to reference ''
                                   @ ''a path relative to the vault root folder''))
                  else Inl (Error ''Cannot resolve path'')))\<close>

definition getLanguage :: "platform \<Rightarrow> string \<Rightarrow> string" where
  "getLanguage pf path =
     drop 1 (extname pf (if startsWith path ''[['' \<and> endsWith path '']]''
                         then slice path 2 (- 2) else path))"

fun firstDefined :: "'a option list \<Rightarrow> 'a option" where
  "firstDefined [] = None"
| "firstDefined (Some x # xs) = Some x"
| "firstDefined (None # xs) = firstDefined xs"

text \<open>
  In the record that \<open>parseRefParams\<close> returns, \<open>end\<close> is computed before \<open>start\<close>.
  When the YAML value is a text other than the source, the four keys are read on a
  string: \<open>filePath\<close>, \<open>file\<close> and \<open>path\<close> are undefined, and \<open>link\<close> is the method
  \<^verbatim>\<open>String.prototype.link\<close>, a function. It is the path, and \<^verbatim>\<open>new URL\<close> throws on
  its text, which has no scheme (lemma \<open>link_method_is_no_url\<close>). A number, a boolean and an array (\<open>YOther\<close>) have none
  of the four keys.
\<close>

definition linkMethodText :: string where
  \<comment> \<open>the text of the function \<^verbatim>\<open>String.prototype.link\<close>\<close>
  "linkMethodText = ''function link() { [native code] }''"

definition parseRefParams :: "platform \<Rightarrow> string \<Rightarrow> string \<Rightarrow> jserror + RefParams" where
  "parseRefParams pf source sourcePath =
     (let source1 = quoteWikiLink (colonSpace source)
      in case parseYaml pf source1 of
           Inl e \<Rightarrow> Inl e
         | Inr YNull \<Rightarrow> Inl (Error ''YAML Parse Error'')
         | Inr YOther \<Rightarrow> Inl (Error ''No path specified'')
         | Inr (YText t) \<Rightarrow>
             (if t = source1 then Inl (Error ''YAML Parse Error'')
              else Inl (TypeError ''Invalid URL''))
         | Inr (YObject params) \<Rightarrow>
             (case firstDefined [pp_filePath params, pp_file params, pp_path params,
                                 pp_link params] of
                None \<Rightarrow> Inl (Error ''No path specified'')
              | Some path \<Rightarrow>
                  if path = [] then Inl (Error ''No path specified'')
                  else
                    (case newURL (urlAfterScheme pf) path of
                       Inl e \<Rightarrow> Inl e
                     | Inr url \<Rightarrow>
                         (case (if protocol url = ''http:'' \<or> protocol url = ''https:''
                                then (let ident = join ''-'' (hostname url #
                                                    split (CHR ''/'') (pathname url @ search url))
                                      in Inr (refContentPath pf ident,
                                              Some \<lparr>ep_id = ident, ep_rawUrl = path,
                                                    ep_hostname = hostname url,
                                                    ep_headers =
                                                      (case pp_headers params of
                                                         Some h \<Rightarrow> h | None \<Rightarrow> Map.empty),
                                                    ep_storePath = refContentPath pf ident\<rparr>))
                                else (case resolveLocalPath pf path sourcePath of
                                        Inl e \<Rightarrow> Inl e
                                      | Inr storePath \<Rightarrow> Inr (storePath, None))) of
                            Inl e \<Rightarrow> Inl e
                          | Inr (storePath, external) \<Rightarrow>
                              (case getLineIdentifier (compileRegExp pf) (pp_end params) of
                                 Inl e \<Rightarrow> Inl e
                               | Inr endId \<Rightarrow>
                                   (case getLineIdentifier (compileRegExp pf) (pp_start params) of
                                      Inl e \<Rightarrow> Inl e
                                    | Inr startId \<Rightarrow>
                                        Inr \<lparr>rp_path = path, rp_storePath = storePath,
                                             rp_language =
                                               (case firstDefined [pp_language params,
                                                                   pp_lang params] of
                                                  Some l \<Rightarrow> l
                                                | None \<Rightarrow> getLanguage pf path),
                                             rp_start = startId, rp_end = endId,
                                             rp_external = external\<rparr>))))))"

definition noParams :: ParsedParams where
  "noParams = \<lparr>pp_filePath = None, pp_file = None, pp_path = None, pp_link = None,
     pp_language = None, pp_lang = None, pp_start = YUndefined, pp_end = YUndefined,
     pp_headers = None\<rparr>"

definition sampleUrlParser :: urlParser where
  \<comment> \<open>a parser for the examples, knowing one address\<close>
  "sampleUrlParser scheme rest =
     (if rest = ''//github.com/o/r/blob/main/a.py''
      then Some (''github.com'', ''/o/r/blob/main/a.py'', [])
      else None)"

definition samplePlatform :: platform where
  \<comment> \<open>a platform for the examples: its YAML parser knows the two bodies used below, no link
      resolves, and paths are already normal\<close>
  "samplePlatform =
     \<lparr>parseYaml = (\<lambda>s. if s = ''path: ./code.py''
                         then Inr (YObject (noParams\<lparr>pp_path := Some ''./code.py''\<rparr>))
                         else if s = ''path: https://github.com/o/r/blob/main/a.py''
                         then Inr (YObject (noParams\<lparr>pp_path :=
                                     Some ''https://github.com/o/r/blob/main/a.py''\<rparr>))
                         else Inr YNull),
      urlAfterScheme = sampleUrlParser,
      refContentPath = (\<lambda>ident. ''.obsidian/plugins/code-styler/reference-files/'' @ ident),
      getFirstLinkpathDest = (\<lambda>linkpath sourcePath. None),
      normalizePath = (\<lambda>p. p),
      extname = (\<lambda>p. (if CHR ''.'' \<in> set p then CHR ''.'' # rev (takeWhile (\<lambda>c. c \<noteq> CHR ''.'') (rev p)) else [])),
      compileRegExp = anyRegExp\<rparr>"

lemma parseRefParams_external_id:
  assumes "parseRefParams pf source sourcePath = Inr rp" "rp_external rp = Some ep"
  shows "\<exists>url. newURL (urlAfterScheme pf) (rp_path rp) = Inr url
           \<and> ep_id ep = join ''-'' (hostname url # split (CHR ''/'') (pathname url @ search url))"
  using assms
  by (auto simp: parseRefParams_def Let_def
           split: sum.splits yaml.splits option.splits if_splits)

lemma local_shapes_have_no_scheme:
  "urlScheme ''./code.py'' = None" "urlScheme ''../code.py'' = None"
  "urlScheme ''@/src/code.py'' = None" "urlScheme ''/src/code.py'' = None"
  "urlScheme ''[[Note]]'' = None" "urlScheme ''src/code.py'' = None"
  by code_simp+

lemma link_method_is_no_url:
  "newURL afterScheme linkMethodText = Inl (TypeError ''Invalid URL'')"
proof -
  have "urlScheme linkMethodText = None" by code_simp
  then show ?thesis by (simp add: newURL_def)
qed

lemma text_value_throws:
  assumes "parseYaml pf (quoteWikiLink (colonSpace source)) = Inr (YText t)"
      and "t \<noteq> quoteWikiLink (colonSpace source)"
  shows "parseRefParams pf source sourcePath = Inl (TypeError ''Invalid URL'')"
  using assms by (simp add: parseRefParams_def Let_def)

lemma path_without_scheme_throws:
  assumes "parseYaml pf (quoteWikiLink (colonSpace source)) = Inr (YObject params)"
      and "firstDefined [pp_filePath params, pp_file params, pp_path params, pp_link params]
             = Some path"
      and "path \<noteq> []" and "urlScheme path = None"
  shows "parseRefParams pf source sourcePath = Inl (TypeError ''Invalid URL'')"
  using assms by (simp add: parseRefParams_def Let_def newURL_def)

lemma sample_local_body:
  "quoteWikiLink (colonSpace ''path: ./code.py'') = ''path: ./code.py''"
  by code_simp

lemma resolveLocalPath_examples:
  "resolveLocalPath samplePlatform ''./code.py'' ''notes/a.md'' = Inr ''notes/code.py''"
  "resolveLocalPath samplePlatform ''../code.py'' ''notes/sub/a.md'' = Inr ''notes/code.py''"
  "resolveLocalPath samplePlatform ''src/code.py'' ''notes/a.md'' = Inr ''notes/src/code.py''"
  "resolveLocalPath samplePlatform ''@/src/code.py'' ''notes/a.md'' = Inr ''src/code.py''"
  "resolveLocalPath samplePlatform ''[[Note]]'' ''notes/a.md'' = Inr ''[[Note]]''"
  by code_simp+

text \<open>
  Claim C2. The claim has \<open>parseRefParams\<close> return the resolved path of a local
  reference. At the body \<open>path: ./code.py\<close> in the document \<open>notes/a.md\<close> it throws
  instead: \<open>new URL(path)\<close> runs before the test of the protocol, and it throws on a path
  without a scheme, so \<open>resolveLocalPath\<close> is never reached. \<open>resolveLocalPath\<close> itself
  gives \<open>notes/code.py\<close>, as the claim says.
\<close>

theorem local_path_is_rejected_as_url:
  "parseRefParams samplePlatform ''path: ./code.py'' ''notes/a.md'' = Inl (TypeError ''Invalid URL'')
   \<and> resolveLocalPath samplePlatform ''./code.py'' ''notes/a.md'' = Inr ''notes/code.py''"
proof -
  have y: "parseYaml samplePlatform (quoteWikiLink (colonSpace ''path: ./code.py''))
             = Inr (YObject (noParams\<lparr>pp_path := Some ''./code.py''\<rparr>))"
    by (simp add: sample_local_body samplePlatform_def)
  have f: "firstDefined [pp_filePath (noParams\<lparr>pp_path := Some ''./code.py''\<rparr>),
                         pp_file (noParams\<lparr>pp_path := Some ''./code.py''\<rparr>),
                         pp_path (noParams\<lparr>pp_path := Some ''./code.py''\<rparr>),
                         pp_link (noParams\<lparr>pp_path := Some ''./code.py''\<rparr>)] = Some ''./code.py''"
    by (simp add: noParams_def)
  have "parseRefParams samplePlatform ''path: ./code.py'' ''notes/a.md''
          = Inl (TypeError ''Invalid URL'')"
    using path_without_scheme_throws [OF y f] local_shapes_have_no_scheme(1) by simp
  then show ?thesis by (simp add: resolveLocalPath_examples)
qed


section \<open>Requests to GitHub (src/Parsing/ReferenceParsing.ts)\<close>

text \<open>
  \<open>_fetchExtRef\<close> hands parameters with one of the two GitHub host names to
  \<open>fetchGitHubSCM\<close>. The model keeps what \<open>fetchGitHubSCM\<close> sends: its two requests, each
  with the address, the method and the headers. What it builds from the responses
  depends on the network and is not modelled.
\<close>

record request =
  req_url :: string
  req_method :: string
  req_headers :: "string \<rightharpoonup> string"

definition stripPrefix :: "string \<Rightarrow> string \<Rightarrow> string option" where
  "stripPrefix p s = (if startsWith s p then Some (drop (length p) s) else None)"

definition optPrefix :: "string \<Rightarrow> string \<Rightarrow> string" where
  "optPrefix p s = (if startsWith s p then drop (length p) s else s)"

definition segment :: "string \<Rightarrow> (string \<times> string) option" where
  \<comment> \<open>\<^verbatim>\<open>([^\/]+)\/\<close> at the start of \<open>s\<close>: the group and what follows the slash\<close>
  "segment s =
     (let g = takeWhile (\<lambda>c. c \<noteq> CHR ''/'') s; r = dropWhile (\<lambda>c. c \<noteq> CHR ''/'') s
      in if g \<noteq> [] \<and> r \<noteq> [] then Some (g, drop 1 r) else None)"

definition refAndPath :: "string \<Rightarrow> (string \<times> string) option" where
  \<comment> \<open>\<^verbatim>\<open>([^\/]+)\/(.+)$\<close>\<close>
  "refAndPath s =
     (case segment s of
        Some (ref, path) \<Rightarrow>
          if path \<noteq> [] \<and> \<not> list_ex isLineTerminator path then Some (ref, path) else None
      | None \<Rightarrow> None)"

definition optionalPrefixes :: "string list \<Rightarrow> string \<Rightarrow> string list" where
  \<comment> \<open>an optional group such as \<^verbatim>\<open>(?:blob\/|raw\/)?\<close>: what is left with the group taken,
      then with the group skipped, in the order the engine tries them\<close>
  "optionalPrefixes ps s =
     (case find (startsWith s) ps of Some p \<Rightarrow> [drop (length p) s, s] | None \<Rightarrow> [s])"

definition afterGitHubHost :: "string \<Rightarrow> string option" where
  \<comment> \<open>\<^verbatim>\<open>^https?:\/\/(?:raw\.)?github(?:usercontent)?\.com\/\<close>\<close>
  "afterGitHubHost rawUrl =
     (case stripPrefix ''http'' rawUrl of
        None \<Rightarrow> None
      | Some a \<Rightarrow>
          (case stripPrefix ''://'' (optPrefix ''s'' a) of
             None \<Rightarrow> None
           | Some b \<Rightarrow>
               (case stripPrefix ''github'' (optPrefix ''raw.'' b) of
                  None \<Rightarrow> None
                | Some c \<Rightarrow> stripPrefix ''.com/'' (optPrefix ''usercontent'' c))))"

definition matchGitHubUrl :: "string \<Rightarrow> (string \<times> string \<times> string \<times> string) option" where
  \<comment> \<open>owner, repo, ref and path of
      \<^verbatim>\<open>/^https?:\/\/(?:raw\.)?github(?:usercontent)?\.com\/([^\/]+)\/([^\/]+)\/(?:blob\/|raw\/)?(?:refs\/(?:heads|tags)\/)?([^\/]+)\/(.+)$/\<close>\<close>
  "matchGitHubUrl rawUrl =
     (case afterGitHubHost rawUrl of
        None \<Rightarrow> None
      | Some d \<Rightarrow>
          (case segment d of
             None \<Rightarrow> None
           | Some (owner, e) \<Rightarrow>
               (case segment e of
                  None \<Rightarrow> None
                | Some (repo, f) \<Rightarrow>
                    (case List.map_filter refAndPath
                            (concat (map (optionalPrefixes [''refs/heads/'', ''refs/tags/''])
                                       (optionalPrefixes [''blob/'', ''raw/''] f))) of
                       [] \<Rightarrow> None
                     | (ref, path) # _ \<Rightarrow> Some (owner, repo, ref, path)))))"

definition gitHubHeaders :: "ExtRefParams \<Rightarrow> (string \<rightharpoonup> string)" where
  \<comment> \<open>the object \<open>HEADERS\<close> of \<open>fetchGitHubSCM\<close>: the spread \<^verbatim>\<open>...params?.headers\<close> comes
      last, and a later property replaces an earlier one of the same name\<close>
  "gitHubHeaders params =
     [''Accept'' \<mapsto> ''application/vnd.github+json'',
      ''X-GitHub-Api-Version'' \<mapsto> ''2022-11-28'',
      ''User-Agent'' \<mapsto> ''Obsidian-Code-Styler'']
     ++ ep_headers params"

definition fetchGitHubSCM_requests :: "ExtRefParams \<Rightarrow> jserror + request list" where
  \<comment> \<open>the two calls of \<open>requestUrl\<close> that \<open>fetchGitHubSCM\<close> makes, in order\<close>
  "fetchGitHubSCM_requests params =
     (case matchGitHubUrl (ep_rawUrl params) of
        None \<Rightarrow> Inl (Error ''invalid GitHub url'')
      | Some (owner, repo, ref, path) \<Rightarrow>
          Inr [\<lparr>req_url = ''https://api.github.com'' @ ''/repos/'' @ owner @ ''/'' @ repo
                           @ ''/contents/'' @ path @ ''?ref='' @ ref,
                 req_method = ''GET'', req_headers = gitHubHeaders params\<rparr>,
               \<lparr>req_url = ''https://api.github.com'' @ ''/repos/'' @ owner @ ''/'' @ repo
                           @ ''/commits/'' @ ref,
                 req_method = ''GET'', req_headers = gitHubHeaders params\<rparr>])"

definition usesGitHubSCM :: "ExtRefParams \<Rightarrow> bool" where
  \<comment> \<open>the test of \<open>_fetchExtRef\<close> that sends the parameters to \<open>fetchGitHubSCM\<close>; the
      headers, an object, are truthy\<close>
  "usesGitHubSCM params =
     (ep_hostname params = ''github.com'' \<or> ep_hostname params = ''raw.githubusercontent.com'')"

definition acceptHeaders :: "jserror + request list \<Rightarrow> string option list" where
  \<comment> \<open>the \<open>Accept\<close> header of each request\<close>
  "acceptHeaders rs =
     (case rs of Inl e \<Rightarrow> [] | Inr reqs \<Rightarrow> map (\<lambda>r. req_headers r ''Accept'') reqs)"

definition sampleExtRefParams :: ExtRefParams where
  \<comment> \<open>parameters for the examples, with an \<open>Accept\<close> header from the caller\<close>
  "sampleExtRefParams =
     \<lparr>ep_id = ''github.com--o-r-blob-main-a.py'',
      ep_rawUrl = ''https://github.com/o/r/blob/main/a.py'',
      ep_hostname = ''github.com'',
      ep_headers = [''Accept'' \<mapsto> ''text/plain''],
      ep_storePath = ''.obsidian/plugins/code-styler/reference-files/github.com--o-r-blob-main-a.py''\<rparr>"

definition plainExtRefParams :: ExtRefParams where
  "plainExtRefParams = sampleExtRefParams\<lparr>ep_headers := Map.empty\<rparr>"

lemma sample_url_match:
  "matchGitHubUrl ''https://github.com/o/r/blob/main/a.py'' = Some (''o'', ''r'', ''main'', ''a.py'')"
  by code_simp

lemma gitHubHeaders_lookup:
  "gitHubHeaders params k =
     (case ep_headers params k of
        Some v \<Rightarrow> Some v
      | None \<Rightarrow>
          [''Accept'' \<mapsto> ''application/vnd.github+json'',
           ''X-GitHub-Api-Version'' \<mapsto> ''2022-11-28'',
           ''User-Agent'' \<mapsto> ''Obsidian-Code-Styler''] k)"
  by (simp add: gitHubHeaders_def map_add_def split: option.splits)

lemma request_headers:
  assumes "fetchGitHubSCM_requests params = Inr requests" "r \<in> set requests"
  shows "req_headers r = gitHubHeaders params"
  using assms
  by (auto simp: fetchGitHubSCM_requests_def split: option.splits prod.splits)

text \<open>
  Claim C1, as amended. For parameters whose host name is \<open>github.com\<close> or
  \<open>raw.githubusercontent.com\<close>, every request of the GitHub fetch maps \<open>Accept\<close> to
  \<open>application/vnd.github+json\<close> and \<open>X-GitHub-Api-Version\<close> to \<open>2022-11-28\<close> unless the
  caller's headers define that name; every header the caller supplies is sent with the
  caller's value.
\<close>

theorem github_headers_default_unless_supplied:
  assumes "ep_hostname params = ''github.com'' \<or> ep_hostname params = ''raw.githubusercontent.com''"
      and "fetchGitHubSCM_requests params = Inr requests"
      and "r \<in> set requests"
  shows "usesGitHubSCM params
         \<and> req_headers r ''Accept'' =
             (case ep_headers params ''Accept'' of
                Some v \<Rightarrow> Some v | None \<Rightarrow> Some ''application/vnd.github+json'')
         \<and> req_headers r ''X-GitHub-Api-Version'' =
             (case ep_headers params ''X-GitHub-Api-Version'' of
                Some v \<Rightarrow> Some v | None \<Rightarrow> Some ''2022-11-28'')
         \<and> (\<forall>k v. ep_headers params k = Some v \<longrightarrow> req_headers r k = Some v)"
  using assms(1) request_headers [OF assms(2,3)]
  by (simp add: usesGitHubSCM_def gitHubHeaders_lookup split: option.splits)

lemma plain_requests:
  "fetchGitHubSCM_requests plainExtRefParams =
     Inr [\<lparr>req_url = ''https://api.github.com/repos/o/r/contents/a.py?ref=main'',
            req_method = ''GET'', req_headers = gitHubHeaders plainExtRefParams\<rparr>,
          \<lparr>req_url = ''https://api.github.com/repos/o/r/commits/main'',
            req_method = ''GET'', req_headers = gitHubHeaders plainExtRefParams\<rparr>]"
  by (simp add: fetchGitHubSCM_requests_def plainExtRefParams_def sampleExtRefParams_def
        sample_url_match)

theorem github_headers_default_unless_supplied_witness:
  "ep_hostname plainExtRefParams = ''github.com''
   \<and> acceptHeaders (fetchGitHubSCM_requests plainExtRefParams) =
       [Some ''application/vnd.github+json'', Some ''application/vnd.github+json'']"
proof -
  let ?r1 = "\<lparr>req_url = ''https://api.github.com/repos/o/r/contents/a.py?ref=main'',
            req_method = ''GET'', req_headers = gitHubHeaders plainExtRefParams\<rparr>"
  let ?r2 = "\<lparr>req_url = ''https://api.github.com/repos/o/r/commits/main'',
            req_method = ''GET'', req_headers = gitHubHeaders plainExtRefParams\<rparr>"
  have h: "ep_hostname plainExtRefParams = ''github.com''"
    by (simp add: plainExtRefParams_def sampleExtRefParams_def)
  have n: "ep_headers plainExtRefParams ''Accept'' = None"
    by (simp add: plainExtRefParams_def)
  from github_headers_default_unless_supplied [of plainExtRefParams "[?r1, ?r2]" ?r1]
    h plain_requests n
  have "gitHubHeaders plainExtRefParams ''Accept'' = Some ''application/vnd.github+json''"
    by simp
  with h show ?thesis by (simp add: plain_requests acceptHeaders_def)
qed

text \<open>
  With the caller's header \<open>Accept: text/plain\<close>, both requests carry \<open>text/plain\<close>.
\<close>

theorem github_accept_header_overwritten_counterexample:
  "usesGitHubSCM sampleExtRefParams
   \<and> acceptHeaders (fetchGitHubSCM_requests sampleExtRefParams) =
       [Some ''text/plain'', Some ''text/plain'']"
proof -
  have "matchGitHubUrl (ep_rawUrl sampleExtRefParams) = Some (''o'', ''r'', ''main'', ''a.py'')"
    by (simp add: sampleExtRefParams_def sample_url_match)
  moreover have "gitHubHeaders sampleExtRefParams ''Accept'' = Some ''text/plain''"
    by (simp add: gitHubHeaders_lookup sampleExtRefParams_def)
  moreover have "usesGitHubSCM sampleExtRefParams"
    by (simp add: usesGitHubSCM_def sampleExtRefParams_def)
  ultimately show ?thesis
    by (simp add: acceptHeaders_def fetchGitHubSCM_requests_def)
qed


section \<open>The reference cache (src/Referencing.ts)\<close>

text \<open>
  The state that \<open>fetchExtRef\<close> reads and writes through the vault adapter: the files by
  path, the metadata file of each id (at \<open>plugin.refMetadataPath(id)\<close>), and the object in
  the cache file (at \<open>plugin.cachePath()\<close>; an unreadable file reads as the empty object).
  \<open>fetch\<close> stands for \<open>_fetchExtRef\<close> and the network behind it.

  Modelled from the spec: \<open>plugin.update\<close>, \<open>plugin.refMetadataPath\<close> and
  \<open>plugin.cachePath\<close> of src/main.ts, which is not among the sources. The spec gives each
  id a content file and a sibling metadata file at paths fixed by the id, and one cache
  file holding the mapping from ids to \<open>sourcePaths\<close> and \<open>extRefParams\<close>; writing
  replaces the file.
\<close>

record vault =
  files :: "string \<rightharpoonup> string"
  metadataFiles :: "string \<rightharpoonup> ExtRefMetadata"
  cache :: "string \<rightharpoonup> IdCache"

type_synonym fetcher = "ExtRefParams \<Rightarrow> jserror + ExtRef"

definition updateExtRef :: "fetcher \<Rightarrow> ExtRefParams \<Rightarrow> vault \<Rightarrow> jserror + (ExtRef \<times> vault)" where
  "updateExtRef fetch params v =
     (case fetch params of
        Inl e \<Rightarrow> Inl e
      | Inr ref \<Rightarrow>
          Inr (ref, v\<lparr>files := (files v)(ep_storePath params \<mapsto> er_content ref),
                      metadataFiles := (metadataFiles v)(ep_id params \<mapsto> er_metadata ref)\<rparr>))"

definition fetchExtRef ::
  "fetcher \<Rightarrow> ExtRefParams \<Rightarrow> string \<Rightarrow> vault \<Rightarrow> jserror + (ExtRef \<times> vault)" where
  "fetchExtRef fetch params sourcePath v =
     (case (case files v (ep_storePath params) of
              None \<Rightarrow> updateExtRef fetch params v
            | Some content \<Rightarrow>
                Inr (\<lparr>er_id = ep_id params, er_content = content,
                      er_metadata = (case metadataFiles v (ep_id params) of
                                       Some m \<Rightarrow> m | None \<Rightarrow> []),
                      er_params = params\<rparr>, v)) of
        Inl e \<Rightarrow> Inl e
      | Inr (ref, v1) \<Rightarrow>
          (if \<not> (case cache v1 (ep_id params) of
                    Some idCache \<Rightarrow> sourcePath \<in> set (sourcePaths idCache)
                  | None \<Rightarrow> False)
           then (let idCache = (case cache v1 (ep_id params) of
                                  Some idCache \<Rightarrow> idCache
                                | None \<Rightarrow> \<lparr>sourcePaths = [], extRefParams = params\<rparr>)
                 in Inr (ref, v1\<lparr>cache := (cache v1)(ep_id params \<mapsto>
                                   idCache\<lparr>sourcePaths := sourcePaths idCache @ [sourcePath]\<rparr>)\<rparr>))
           else Inr (ref, v1)))"

definition sampleFetcher :: fetcher where
  "sampleFetcher params =
     Inr \<lparr>er_id = ep_id params, er_content = ''print(1)'', er_metadata = [],
          er_params = params\<rparr>"

definition emptyVault :: vault where
  "emptyVault = \<lparr>files = Map.empty, metadataFiles = Map.empty, cache = Map.empty\<rparr>"

definition vaultAfter :: "jserror + (ExtRef \<times> vault) \<Rightarrow> vault \<Rightarrow> vault" where
  "vaultAfter result v = (case result of Inr (ref, v') \<Rightarrow> v' | Inl e \<Rightarrow> v)"

definition cachedSourcePaths :: "vault \<Rightarrow> string \<Rightarrow> string list option" where
  "cachedSourcePaths v ident = map_option sourcePaths (cache v ident)"

definition sampleBody :: string where
  "sampleBody = ''path: https://github.com/o/r/blob/main/a.py''"


lemma fetchExtRef_cache:
  assumes "fetchExtRef fetch params sourcePath v = Inr (ref, v')"
  shows "cache v' =
           (case cache v (ep_id params) of
              None \<Rightarrow> (cache v)(ep_id params \<mapsto> \<lparr>sourcePaths = [sourcePath], extRefParams = params\<rparr>)
            | Some idCache \<Rightarrow>
                if sourcePath \<in> set (sourcePaths idCache) then cache v
                else (cache v)(ep_id params \<mapsto>
                        idCache\<lparr>sourcePaths := sourcePaths idCache @ [sourcePath]\<rparr>))"
  using assms
  by (auto simp: fetchExtRef_def updateExtRef_def Let_def
           split: option.splits sum.splits if_splits)

lemma fetchExtRef_succeeds:
  assumes "fetch params = Inr r"
  shows "\<exists>ref v'. fetchExtRef fetch params sourcePath v = Inr (ref, v')"
  using assms
  by (auto simp: fetchExtRef_def updateExtRef_def Let_def split: option.splits)

lemma same_url_same_id:
  assumes "parseRefParams pf source1 doc1 = Inr rp1" "rp_external rp1 = Some ep1"
      and "parseRefParams pf source2 doc2 = Inr rp2" "rp_external rp2 = Some ep2"
      and "rp_path rp1 = rp_path rp2"
  shows "ep_id ep1 = ep_id ep2"
proof -
  from parseRefParams_external_id [OF assms(1,2)] obtain u1 where
    u1: "newURL (urlAfterScheme pf) (rp_path rp1) = Inr u1"
        "ep_id ep1 = join ''-'' (hostname u1 # split (CHR ''/'') (pathname u1 @ search u1))"
    by blast
  from parseRefParams_external_id [OF assms(3,4)] obtain u2 where
    u2: "newURL (urlAfterScheme pf) (rp_path rp2) = Inr u2"
        "ep_id ep2 = join ''-'' (hostname u2 # split (CHR ''/'') (pathname u2 @ search u2))"
    by blast
  from u1(1) u2(1) assms(5) have "u1 = u2" by simp
  with u1(2) u2(2) show ?thesis by simp
qed

lemma two_fetches_cache:
  assumes "ep_id ep1 = ep_id ep2"
      and "fetchExtRef fetch ep1 doc1 v0 = Inr (ref1, v1)"
      and "fetchExtRef fetch ep2 doc2 v1 = Inr (ref2, v2)"
  shows "dom (cache v2) = insert (ep_id ep1) (dom (cache v0))"
    and "\<exists>idCache. cache v2 (ep_id ep1) = Some idCache
           \<and> doc1 \<in> set (sourcePaths idCache) \<and> doc2 \<in> set (sourcePaths idCache)"
    and "\<forall>k. k \<noteq> ep_id ep1 \<longrightarrow> cache v2 k = cache v0 k"
    and "cache v0 = Map.empty \<and> doc1 \<noteq> doc2 \<longrightarrow>
           cache v2 = [ep_id ep1 \<mapsto> \<lparr>sourcePaths = [doc1, doc2], extRefParams = ep1\<rparr>]"
proof -
  note c1 = fetchExtRef_cache [OF assms(2)]
  note c2 = fetchExtRef_cache [OF assms(3), folded assms(1)]
  show "dom (cache v2) = insert (ep_id ep1) (dom (cache v0))"
    unfolding c2 c1 by (auto split: option.splits if_splits)
  show "\<exists>idCache. cache v2 (ep_id ep1) = Some idCache
           \<and> doc1 \<in> set (sourcePaths idCache) \<and> doc2 \<in> set (sourcePaths idCache)"
    unfolding c2 c1 by (auto split: option.splits if_splits)
  show "\<forall>k. k \<noteq> ep_id ep1 \<longrightarrow> cache v2 k = cache v0 k"
    unfolding c2 c1 by (auto split: option.splits if_splits)
  show "cache v0 = Map.empty \<and> doc1 \<noteq> doc2 \<longrightarrow>
           cache v2 = [ep_id ep1 \<mapsto> \<lparr>sourcePaths = [doc1, doc2], extRefParams = ep1\<rparr>]"
    unfolding c2 c1 by (auto split: option.splits if_splits)
qed

text \<open>
  Claim C9. The id that \<open>parseRefParams\<close> computes is the host name and the segments of
  path name and search of the parsed address, joined by \<open>-\<close>: two reference blocks with
  the same address have the same id, whatever their documents. After \<open>fetchExtRef\<close> has
  processed both, the cache has one entry more than before at most, the entry of that id,
  and its \<open>sourcePaths\<close> hold both documents; every other entry is unchanged. From an
  empty cache and two different documents, the cache is exactly that one entry, listing the
  two documents in order.
\<close>

theorem same_url_one_cache_entry:
  assumes "parseRefParams pf source1 doc1 = Inr rp1" "rp_external rp1 = Some ep1"
      and "parseRefParams pf source2 doc2 = Inr rp2" "rp_external rp2 = Some ep2"
      and "rp_path rp1 = rp_path rp2"
      and "fetchExtRef fetch ep1 doc1 v0 = Inr (ref1, v1)"
      and "fetchExtRef fetch ep2 doc2 v1 = Inr (ref2, v2)"
  shows "(\<exists>url. newURL (urlAfterScheme pf) (rp_path rp1) = Inr url
            \<and> ep_id ep1 = join ''-'' (hostname url # split (CHR ''/'') (pathname url @ search url)))
         \<and> ep_id ep2 = ep_id ep1
         \<and> dom (cache v2) = insert (ep_id ep1) (dom (cache v0))
         \<and> (\<exists>idCache. cache v2 (ep_id ep1) = Some idCache
               \<and> doc1 \<in> set (sourcePaths idCache) \<and> doc2 \<in> set (sourcePaths idCache))
         \<and> (\<forall>k. k \<noteq> ep_id ep1 \<longrightarrow> cache v2 k = cache v0 k)
         \<and> (cache v0 = Map.empty \<and> doc1 \<noteq> doc2 \<longrightarrow>
               cache v2 = [ep_id ep1 \<mapsto> \<lparr>sourcePaths = [doc1, doc2], extRefParams = ep1\<rparr>])"
proof -
  have i: "ep_id ep1 = ep_id ep2" using assms(1-5) by (rule same_url_same_id)
  from parseRefParams_external_id [OF assms(1,2)] i
    two_fetches_cache [OF i assms(6,7)]
  show ?thesis by simp
qed

lemma sample_parse:
  "parseRefParams samplePlatform sampleBody doc =
     Inr \<lparr>rp_path = ''https://github.com/o/r/blob/main/a.py'',
          rp_storePath = ep_storePath plainExtRefParams,
          rp_language = ''py'', rp_start = LNull, rp_end = LNull,
          rp_external = Some plainExtRefParams\<rparr>"
proof -
  have b: "quoteWikiLink (colonSpace sampleBody) = sampleBody"
    unfolding sampleBody_def by code_simp
  have s: "urlScheme ''https://github.com/o/r/blob/main/a.py''
             = Some (''https'', ''//github.com/o/r/blob/main/a.py'')"
    by code_simp
  have j: "join ''-'' (''github.com'' # split (CHR ''/'') (''/o/r/blob/main/a.py'' @ []))
             = ''github.com--o-r-blob-main-a.py''"
    by code_simp
  have l: "getLanguage samplePlatform ''https://github.com/o/r/blob/main/a.py'' = ''py''"
    unfolding samplePlatform_def by code_simp
  have y: "parseYaml samplePlatform sampleBody =
             Inr (YObject (noParams\<lparr>pp_path := Some ''https://github.com/o/r/blob/main/a.py''\<rparr>))"
    by (simp add: samplePlatform_def sampleBody_def)
  have u: "urlAfterScheme samplePlatform ''https'' ''//github.com/o/r/blob/main/a.py''
             = Some (''github.com'', ''/o/r/blob/main/a.py'', [])"
    by (simp add: samplePlatform_def sampleUrlParser_def)
  have r: "refContentPath samplePlatform ''github.com--o-r-blob-main-a.py''
             = ''.obsidian/plugins/code-styler/reference-files/github.com--o-r-blob-main-a.py''"
    unfolding samplePlatform_def by simp
  show ?thesis
    unfolding parseRefParams_def Let_def b y
    by (simp add: noParams_def newURL_def s u j l r getLineIdentifier_def
          plainExtRefParams_def sampleExtRefParams_def)
qed

theorem same_url_one_cache_entry_witness:
  "cachedSourcePaths
     (vaultAfter (fetchExtRef sampleFetcher plainExtRefParams ''notes/b.md''
        (vaultAfter (fetchExtRef sampleFetcher plainExtRefParams ''notes/a.md'' emptyVault)
           emptyVault))
        emptyVault)
     ''github.com--o-r-blob-main-a.py''
   = Some [''notes/a.md'', ''notes/b.md'']"
proof -
  let ?rp = "\<lparr>rp_path = ''https://github.com/o/r/blob/main/a.py'',
          rp_storePath = ep_storePath plainExtRefParams,
          rp_language = ''py'', rp_start = LNull, rp_end = LNull,
          rp_external = Some plainExtRefParams\<rparr>"
  have sf: "sampleFetcher plainExtRefParams =
              Inr \<lparr>er_id = ep_id plainExtRefParams, er_content = ''print(1)'',
                   er_metadata = [], er_params = plainExtRefParams\<rparr>"
    by (simp add: sampleFetcher_def)
  from fetchExtRef_succeeds [of sampleFetcher plainExtRefParams _ "''notes/a.md''" emptyVault] sf
  obtain ref1 v1 where
    f1: "fetchExtRef sampleFetcher plainExtRefParams ''notes/a.md'' emptyVault = Inr (ref1, v1)"
    by blast
  from fetchExtRef_succeeds [of sampleFetcher plainExtRefParams _ "''notes/b.md''" v1] sf
  obtain ref2 v2 where
    f2: "fetchExtRef sampleFetcher plainExtRefParams ''notes/b.md'' v1 = Inr (ref2, v2)"
    by blast
  have e: "rp_external ?rp = Some plainExtRefParams" by simp
  have d: "''notes/a.md'' \<noteq> ''notes/b.md''" by simp
  have i: "ep_id plainExtRefParams = ''github.com--o-r-blob-main-a.py''"
    by (simp add: plainExtRefParams_def sampleExtRefParams_def)
  from same_url_one_cache_entry
         [OF sample_parse [of "''notes/a.md''"] e sample_parse [of "''notes/b.md''"] e refl f1 f2]
  have "cache emptyVault = Map.empty \<and> ''notes/a.md'' \<noteq> ''notes/b.md'' \<longrightarrow>
          cache v2 = [ep_id plainExtRefParams \<mapsto>
                        \<lparr>sourcePaths = [''notes/a.md'', ''notes/b.md''],
                         extRefParams = plainExtRefParams\<rparr>]"
    by blast
  then have "cache v2 ''github.com--o-r-blob-main-a.py''
               = Some \<lparr>sourcePaths = [''notes/a.md'', ''notes/b.md''],
                        extRefParams = plainExtRefParams\<rparr>"
    using d by (simp add: emptyVault_def i)
  then show ?thesis
    by (simp add: cachedSourcePaths_def vaultAfter_def f1 f2)
qed

end
